theory Spec2Isabelle
  imports Complex_Main "HOL-Library.Sublist"
begin

section \<open>Python values\<close>

text \<open>
  The bridge (\<^verbatim>\<open>src/back/direct_bridge.py\<close>) handles values that \<^verbatim>\<open>json.loads\<close>
  produced. A JSON object is a Python dict, kept here as an association list in
  insertion order with one entry per key; \<^verbatim>\<open>None\<close> is \<open>JNull\<close>. Python floats are
  modelled by the reals (no rounding, no overflow, no NaN), Python ints by \<open>int\<close>.
\<close>

datatype json =
    JNull
  | JBool bool
  | JInt int
  | JFloat real
  | JStr string
  | JArr "json list"
  | JObj "(string \<times> json) list"

type_synonym pydict = "(string \<times> json) list"

datatype py_error = TypeError | KeyError | IndexError | AttributeError string | ValueError

text \<open>Truth value of a Python object, as \<^verbatim>\<open>if v:\<close> tests it.\<close>

fun truthy :: "json \<Rightarrow> bool" where
  "truthy JNull = False"
| "truthy (JBool b) = b"
| "truthy (JInt i) = (i \<noteq> 0)"
| "truthy (JFloat r) = (r \<noteq> 0)"
| "truthy (JStr s) = (s \<noteq> [])"
| "truthy (JArr xs) = (xs \<noteq> [])"
| "truthy (JObj kvs) = (kvs \<noteq> [])"

text \<open>\<^verbatim>\<open>k in d\<close>, \<^verbatim>\<open>d.get(k)\<close>, \<^verbatim>\<open>d.get(k, default)\<close> and \<^verbatim>\<open>d[k] = v\<close> on a dict.\<close>

definition has_key :: "('k \<times> 'v) list \<Rightarrow> 'k \<Rightarrow> bool" where
  "has_key d k = (map_of d k \<noteq> None)"

definition dict_get :: "pydict \<Rightarrow> string \<Rightarrow> json" where
  "dict_get d k = (case map_of d k of None \<Rightarrow> JNull | Some v \<Rightarrow> v)"

definition dict_get_default :: "pydict \<Rightarrow> string \<Rightarrow> json \<Rightarrow> json" where
  "dict_get_default d k dflt = (case map_of d k of None \<Rightarrow> dflt | Some v \<Rightarrow> v)"

fun dict_set :: "('k \<times> 'v) list \<Rightarrow> 'k \<Rightarrow> 'v \<Rightarrow> ('k \<times> 'v) list" where
  "dict_set [] k v = [(k, v)]"
| "dict_set ((k', v') # d) k v =
     (if k' = k then (k, v) # d else (k', v') # dict_set d k v)"

text \<open>\<^verbatim>\<open>del d[k]\<close> for a key that is present.\<close>

definition dict_del :: "('k \<times> 'v) list \<Rightarrow> 'k \<Rightarrow> ('k \<times> 'v) list" where
  "dict_del d k = filter (\<lambda>kv. fst kv \<noteq> k) d"

text \<open>\<^verbatim>\<open>a or b\<close> on values.\<close>

definition py_or :: "json \<Rightarrow> json \<Rightarrow> json" where
  "py_or a b = (if truthy a then a else b)"

text \<open>\<^verbatim>\<open>needle in s\<close> on two strings is a substring test.\<close>

fun py_substring :: "string \<Rightarrow> string \<Rightarrow> bool" where
  "py_substring p [] = (p = [])"
| "py_substring p (c # cs) = (prefix p (c # cs) \<or> py_substring p cs)"

text \<open>
  \<^verbatim>\<open>"key" in v\<close> for a string literal on the left: key membership in a dict, element
  membership in a list, substring in a string, and \<^verbatim>\<open>TypeError\<close> (argument is not
  iterable) for \<^verbatim>\<open>None\<close>, a bool or a number.
\<close>

fun py_str_in :: "string \<Rightarrow> json \<Rightarrow> py_error + bool" where
  "py_str_in k (JObj d) = Inr (has_key d k)"
| "py_str_in k (JArr xs) = Inr (JStr k \<in> set xs)"
| "py_str_in k (JStr s) = Inr (py_substring k s)"
| "py_str_in k _ = Inl TypeError"

fun is_dict :: "json \<Rightarrow> bool" where
  "is_dict (JObj _) = True"
| "is_dict _ = False"

fun is_list :: "json \<Rightarrow> bool" where
  "is_list (JArr _) = True"
| "is_list _ = False"

fun the_dict :: "json \<Rightarrow> pydict" where
  "the_dict (JObj d) = d"
| "the_dict _ = []"

section \<open>Frame normalizer\<close>

text \<open>
  \<^verbatim>\<open>transform_robot_message\<close>. The clock reading \<^verbatim>\<open>time.time()\<close> is the parameter
  \<open>now\<close>, Python's string formatting of a value inside the f-string
  \<^verbatim>\<open>f"generic_{original_type}"\<close> is the parameter \<open>fmt\<close>. The branches are the
  source's, in its order; the only operation that can raise is the membership test
  \<^verbatim>\<open>"robot_id" not in message_dict.get("data", {})\<close> of the registration branch,
  reached only when \<^verbatim>\<open>"robot_id"\<close> is no key and the reported id is truthy.
\<close>

definition with_reported_id :: "json \<Rightarrow> string \<Rightarrow> pydict \<Rightarrow> pydict" where
  "with_reported_id rid k d = (if truthy rid then dict_set d k rid else d)"

definition generic_type :: "(json \<Rightarrow> string) \<Rightarrow> json \<Rightarrow> string" where
  "generic_type fmt original_type = ''generic_'' @ fmt original_type"

definition transform_robot_message ::
    "(json \<Rightarrow> string) \<Rightarrow> real \<Rightarrow> pydict \<Rightarrow> py_error + pydict" where
  "transform_robot_message fmt now message_dict =
    (let transformed_payload =
           [(''robot_ip'', JStr ''PENDING_IP''),
            (''robot_alias'', JStr ''PENDING_ALIAS''),
            (''timestamp'', dict_get_default message_dict ''timestamp'' (JFloat now))];
         original_type = dict_get message_dict ''type'';
         robot_reported_id = dict_get message_dict ''id''
     in
       if original_type = JStr ''bno055'' \<and> has_key message_dict ''data''
          \<and> is_dict (dict_get message_dict ''data'')
       then
         (let imu_data_content = the_dict (dict_get message_dict ''data'');
              data = [(''time'', dict_get imu_data_content ''time''),
                      (''euler'', dict_get imu_data_content ''euler''),
                      (''quaternion'', dict_get imu_data_content ''quaternion'')]
          in Inr (dict_set (dict_set transformed_payload ''type'' (JStr ''imu_data''))
                    ''data'' (JObj (with_reported_id robot_reported_id ''robot_reported_id'' data))))
       else if original_type = JStr ''encoder'' \<and> has_key message_dict ''data''
          \<and> is_list (dict_get message_dict ''data'')
       then
         Inr (with_reported_id robot_reported_id ''robot_reported_id''
                (dict_set (dict_set transformed_payload ''type'' (JStr ''encoder_data''))
                   ''data'' (dict_get message_dict ''data'')))
       else if original_type = JStr ''log''
       then
         Inr (with_reported_id robot_reported_id ''robot_reported_id''
                (dict_set (dict_set (dict_set transformed_payload ''type'' (JStr ''log''))
                   ''message'' (dict_get message_dict ''message''))
                   ''level'' (dict_get_default message_dict ''level'' (JStr ''debug''))))
       else if original_type = JStr ''registration'' \<and> has_key message_dict ''capabilities''
       then
         (let data = [(''capabilities'', dict_get message_dict ''capabilities''),
                      (''robot_reported_id'',
                         py_or (dict_get message_dict ''robot_id'') robot_reported_id)];
              p = dict_set (dict_set transformed_payload ''type'' (JStr ''registration''))
                    ''data'' (JObj data)
          in
            if has_key message_dict ''robot_id''
            then Inr (dict_set p ''robot_reported_id_explicit'' (dict_get message_dict ''robot_id''))
            else if truthy robot_reported_id
            then (case py_str_in ''robot_id'' (dict_get_default message_dict ''data'' (JObj [])) of
                    Inl e \<Rightarrow> Inl e
                  | Inr found \<Rightarrow>
                      if \<not> found
                      then Inr (dict_set p ''robot_reported_id_explicit'' robot_reported_id)
                      else Inr p)
            else Inr p)
       else if truthy original_type
       then
         Inr (dict_set (dict_set transformed_payload ''type''
                (JStr (generic_type fmt original_type))) ''data'' (JObj message_dict))
       else
         Inr (dict_set (dict_set transformed_payload ''type'' (JStr ''unknown_json_data''))
                ''data'' (JObj message_dict)))"

text \<open>
  The shape the normalizer's result has when it returns: the four envelope keys, and a
  type out of the six the branches assign.
\<close>

definition envelope_types :: "(json \<Rightarrow> string) \<Rightarrow> json \<Rightarrow> json set" where
  "envelope_types fmt original_type =
     {JStr ''imu_data'', JStr ''encoder_data'', JStr ''log'', JStr ''registration'',
      JStr (generic_type fmt original_type), JStr ''unknown_json_data''}"

definition is_envelope :: "(json \<Rightarrow> string) \<Rightarrow> json \<Rightarrow> pydict \<Rightarrow> bool" where
  "is_envelope fmt original_type e =
     (has_key e ''robot_ip'' \<and> has_key e ''robot_alias'' \<and> has_key e ''timestamp''
      \<and> has_key e ''type'' \<and> dict_get e ''type'' \<in> envelope_types fmt original_type)"

fun on_result :: "('a \<Rightarrow> bool) \<Rightarrow> py_error + 'a \<Rightarrow> bool" where
  "on_result P (Inl err) = True"
| "on_result P (Inr e) = P e"

section \<open>Pose estimator\<close>

text \<open>
  \<^verbatim>\<open>TrajectoryCalculator\<close>. The per-robot entry of \<^verbatim>\<open>robot_data\<close> is a record; the
  fields \<^verbatim>\<open>x\<close>, \<^verbatim>\<open>y\<close>, \<^verbatim>\<open>theta\<close> carry the prefix \<open>rs_\<close>. \<^verbatim>\<open>theta\<close> and
  \<^verbatim>\<open>last_timestamp_encoder\<close> hold whatever value the frame supplied, so they are
  JSON values (\<open>JNull\<close> for \<^verbatim>\<open>None\<close>); \<^verbatim>\<open>x\<close> and \<^verbatim>\<open>y\<close> start at 0.0 and only
  change by float arithmetic. The frames handed to \<^verbatim>\<open>update_imu_data\<close> and
  \<^verbatim>\<open>update_encoder_data\<close> are dicts, as at their call sites in
  \<^verbatim>\<open>handle_tcp_client\<close>. Each \<^verbatim>\<open>time.time()\<close> reading is a parameter.
\<close>

record pose =
  pose_x :: real
  pose_y :: real
  pose_theta :: json

record robot_state =
  rs_x :: real
  rs_y :: real
  rs_theta :: json
  last_timestamp_encoder :: json
  path_history :: "pose list"
  latest_imu_data :: "pydict option"
  latest_encoder_data :: "pydict option"
  last_imu_timestamp :: "real option"
  last_encoder_timestamp :: "real option"

type_synonym robot_data = "string \<rightharpoonup> robot_state"

type_synonym trajectory = "(pose \<times> pose list) option"

definition MAX_TRAJECTORY_POINTS_DEFAULT :: nat where
  "MAX_TRAJECTORY_POINTS_DEFAULT = 1000"

definition WHEEL_RADIUS_DEFAULT :: real where
  "WHEEL_RADIUS_DEFAULT = 0.0325"

definition fresh_robot_state :: robot_state where
  "fresh_robot_state =
     \<lparr>rs_x = 0, rs_y = 0, rs_theta = JFloat 0, last_timestamp_encoder = JNull,
      path_history = [], latest_imu_data = None, latest_encoder_data = None,
      last_imu_timestamp = None, last_encoder_timestamp = None\<rparr>"

text \<open>\<^verbatim>\<open>_ensure_robot_data\<close> followed by the read \<^verbatim>\<open>self.robot_data[key]\<close>.\<close>

definition ensure_robot_data :: "robot_data \<Rightarrow> string \<Rightarrow> robot_state" where
  "ensure_robot_data rd unique_robot_key =
     (case rd unique_robot_key of None \<Rightarrow> fresh_robot_state | Some st \<Rightarrow> st)"

text \<open>
  Numbers in arithmetic: ints, floats and bools (\<^verbatim>\<open>True\<close> is 1); any other operand
  makes \<^verbatim>\<open>-\<close>, \<^verbatim>\<open>*\<close> with a float and \<^verbatim>\<open>math.cos\<close> raise \<^verbatim>\<open>TypeError\<close>.
\<close>

fun as_num :: "json \<Rightarrow> real option" where
  "as_num (JInt i) = Some (of_int i)"
| "as_num (JFloat r) = Some r"
| "as_num (JBool b) = Some (if b then 1 else 0)"
| "as_num _ = None"

definition py_sub :: "json \<Rightarrow> json \<Rightarrow> py_error + real" where
  "py_sub a b =
     (case (as_num a, as_num b) of
        (Some u, Some v) \<Rightarrow> Inr (u - v)
      | _ \<Rightarrow> Inl TypeError)"

text \<open>\<^verbatim>\<open>len(v)\<close> and \<^verbatim>\<open>v[2]\<close>.\<close>

fun py_len :: "json \<Rightarrow> py_error + nat" where
  "py_len (JArr xs) = Inr (length xs)"
| "py_len (JStr s) = Inr (length s)"
| "py_len (JObj d) = Inr (length d)"
| "py_len _ = Inl TypeError"

fun py_index2 :: "json \<Rightarrow> py_error + json" where
  "py_index2 (JArr (a # b # c # xs)) = Inr c"
| "py_index2 (JArr _) = Inl IndexError"
| "py_index2 (JStr (a # b # c # s)) = Inr (JStr [c])"
| "py_index2 (JStr _) = Inl IndexError"
| "py_index2 (JObj d) = Inl KeyError"
| "py_index2 _ = Inl TypeError"

text \<open>
  The yaw of an IMU frame: \<^verbatim>\<open>imu_data["yaw"]\<close> if the key is there, else
  \<^verbatim>\<open>imu_data["euler"][2]\<close> if \<^verbatim>\<open>euler\<close> is there with length 3, else nothing.
\<close>

definition extract_yaw :: "pydict \<Rightarrow> py_error + json option" where
  "extract_yaw imu_data =
     (if has_key imu_data ''yaw'' then Inr (Some (dict_get imu_data ''yaw''))
      else if has_key imu_data ''euler'' then
        (case py_len (dict_get imu_data ''euler'') of
           Inl e \<Rightarrow> Inl e
         | Inr n \<Rightarrow>
             if n = 3 then
               (case py_index2 (dict_get imu_data ''euler'') of
                  Inl e \<Rightarrow> Inl e
                | Inr v \<Rightarrow> Inr (Some v))
             else Inr None)
      else Inr None)"

definition rpm_to_omega :: "real \<Rightarrow> real" where
  "rpm_to_omega rpm = rpm * (2 * pi) / 60"

text \<open>The list comprehension over the three RPM values; a non-number raises.\<close>

definition rpms_to_omegas :: "json list \<Rightarrow> py_error + real \<times> real \<times> real" where
  "rpms_to_omegas rpms =
     (case map as_num rpms of
        [Some r1, Some r2, Some r3] \<Rightarrow> Inr (rpm_to_omega r1, rpm_to_omega r2, rpm_to_omega r3)
      | _ \<Rightarrow> Inl TypeError)"

definition current_pose :: "robot_state \<Rightarrow> pose" where
  "current_pose st = \<lparr>pose_x = rs_x st, pose_y = rs_y st, pose_theta = rs_theta st\<rparr>"

definition current_result :: "robot_state \<Rightarrow> robot_state \<times> (py_error + trajectory)" where
  "current_result st = (st, Inr (Some (current_pose st, path_history st)))"

text \<open>
  \<^verbatim>\<open>age = current_time - ts if ts else float('inf')\<close> and the test
  \<^verbatim>\<open>age > max_data_age\<close> with \<^verbatim>\<open>max_data_age = 5.0\<close>.
\<close>

definition too_old :: "real \<Rightarrow> real option \<Rightarrow> bool" where
  "too_old current_time ts =
     (case ts of None \<Rightarrow> True | Some t \<Rightarrow> if t = 0 then True else current_time - t > 5)"

definition limit_path :: "pose list \<Rightarrow> pose list" where
  "limit_path path =
     (if length path > MAX_TRAJECTORY_POINTS_DEFAULT
      then drop (length path - MAX_TRAJECTORY_POINTS_DEFAULT) path else path)"

text \<open>The integration step, after \<^verbatim>\<open>dt\<close> was found positive.\<close>

definition integrate ::
    "json \<Rightarrow> json list \<Rightarrow> json \<Rightarrow> real \<Rightarrow> robot_state \<Rightarrow> robot_state \<times> (py_error + trajectory)" where
  "integrate timestamp_encoder rpms current_heading_rad dt robot_state =
     (let st1 = robot_state\<lparr>last_timestamp_encoder := timestamp_encoder\<rparr> in
      case rpms_to_omegas rpms of
        Inl e \<Rightarrow> (st1, Inl e)
      | Inr (omega_m1, omega_m2, omega_m3) \<Rightarrow>
          (case as_num (rs_theta st1) of
             None \<Rightarrow> (st1, Inl TypeError)
           | Some th \<Rightarrow>
               (let vx_robot = WHEEL_RADIUS_DEFAULT * (omega_m1 + omega_m2 + omega_m3) / 3;
                    vy_robot = 0;
                    cos_h = cos th;
                    sin_h = sin th;
                    vx_world = vx_robot * cos_h - vy_robot * sin_h;
                    vy_world = vx_robot * sin_h + vy_robot * cos_h;
                    st2 = st1\<lparr>rs_x := rs_x st1 + vx_world * dt,
                              rs_y := rs_y st1 + vy_world * dt,
                              rs_theta := current_heading_rad\<rparr>;
                    new_point = current_pose st2;
                    path = limit_path (path_history st2 @ [new_point])
                in (st2\<lparr>path_history := path\<rparr>, Inr (Some (new_point, path))))))"

text \<open>\<^verbatim>\<open>_try_calculate_trajectory\<close> on the robot's entry.\<close>

definition try_calculate_trajectory ::
    "real \<Rightarrow> robot_state \<Rightarrow> robot_state \<times> (py_error + trajectory)" where
  "try_calculate_trajectory current_time robot_state =
     (case (latest_imu_data robot_state, latest_encoder_data robot_state) of
        (None, None) \<Rightarrow> (robot_state, Inr None)
      | (None, Some encoder_data) \<Rightarrow>
          (if encoder_data = [] then (robot_state, Inr None) else current_result robot_state)
      | (Some imu_data, None) \<Rightarrow>
          (if imu_data = [] then (robot_state, Inr None) else current_result robot_state)
      | (Some imu_data, Some encoder_data) \<Rightarrow>
          if imu_data = [] \<and> encoder_data = [] then (robot_state, Inr None)
          else if imu_data = [] \<or> encoder_data = [] then current_result robot_state
          else if too_old current_time (last_imu_timestamp robot_state)
                  \<or> too_old current_time (last_encoder_timestamp robot_state)
          then current_result robot_state
          else
            (let timestamp_encoder =
                   dict_get_default encoder_data ''timestamp'' (JFloat current_time);
                 rpms = dict_get_default encoder_data ''data''
                          (dict_get_default encoder_data ''encoders'' (JArr []))
             in case rpms of
                  JArr [r1, r2, r3] \<Rightarrow>
                    (case extract_yaw imu_data of
                       Inl e \<Rightarrow> (robot_state, Inl e)
                     | Inr yaw \<Rightarrow>
                        (let current_heading_rad =
                               (case yaw of None \<Rightarrow> rs_theta robot_state | Some v \<Rightarrow> v)
                         in if last_timestamp_encoder robot_state = JNull then
                              (let st1 = robot_state\<lparr>last_timestamp_encoder := timestamp_encoder,
                                                     rs_theta := current_heading_rad\<rparr>;
                                   st2 = (if path_history st1 = []
                                          then st1\<lparr>path_history := [current_pose st1]\<rparr>
                                          else st1)
                               in (st2, Inr (Some (current_pose st1, path_history st2))))
                            else
                              (case py_sub timestamp_encoder (last_timestamp_encoder robot_state) of
                                 Inl e \<Rightarrow> (robot_state, Inl e)
                               | Inr dt \<Rightarrow>
                                   if dt \<le> 0
                                   then current_result (robot_state\<lparr>rs_theta := current_heading_rad\<rparr>)
                                   else integrate timestamp_encoder [r1, r2, r3]
                                          current_heading_rad dt robot_state)))
                | _ \<Rightarrow> current_result robot_state))"

text \<open>
  \<^verbatim>\<open>update_imu_data\<close> and \<^verbatim>\<open>update_encoder_data\<close>: \<open>t_store\<close> is the clock reading
  stored with the frame, \<open>t_calc\<close> the later one \<^verbatim>\<open>_try_calculate_trajectory\<close> takes.
  The result pairs the new \<^verbatim>\<open>robot_data\<close> with the returned value or the exception.
\<close>

definition update_imu_data ::
    "string \<Rightarrow> real \<Rightarrow> real \<Rightarrow> pydict \<Rightarrow> robot_data \<Rightarrow> robot_data \<times> (py_error + trajectory)" where
  "update_imu_data unique_robot_key t_store t_calc imu_data rd =
     (let st = ensure_robot_data rd unique_robot_key in
      case extract_yaw imu_data of
        Inl e \<Rightarrow> (rd(unique_robot_key \<mapsto> st), Inl e)
      | Inr yaw \<Rightarrow>
          (let st1 = (case yaw of
                        None \<Rightarrow> st
                      | Some v \<Rightarrow> if v \<noteq> JNull then st\<lparr>rs_theta := v\<rparr> else st);
               st2 = st1\<lparr>latest_imu_data := Some imu_data, last_imu_timestamp := Some t_store\<rparr>;
               (st3, res) = try_calculate_trajectory t_calc st2
           in (rd(unique_robot_key \<mapsto> st3), res)))"

definition update_encoder_data ::
    "string \<Rightarrow> real \<Rightarrow> real \<Rightarrow> pydict \<Rightarrow> robot_data \<Rightarrow> robot_data \<times> (py_error + trajectory)" where
  "update_encoder_data unique_robot_key t_store t_calc encoder_data rd =
     (let st = ensure_robot_data rd unique_robot_key;
          st1 = st\<lparr>latest_encoder_data := Some encoder_data,
                    last_encoder_timestamp := Some t_store\<rparr>;
          (st2, res) = try_calculate_trajectory t_calc st1
      in (rd(unique_robot_key \<mapsto> st2), res))"






text \<open>The frames of the pose-seed scenario.\<close>

definition seed_imu_frame :: pydict where
  "seed_imu_frame = [(''yaw'', JFloat 0)]"

definition seed_encoder_frame :: "real \<Rightarrow> pydict" where
  "seed_encoder_frame ts = [(''timestamp'', JFloat ts), (''data'', JArr [JInt 60, JInt 60, JInt 60])]"

section \<open>Registry and command relay\<close>

text \<open>
  \<^verbatim>\<open>robot_alias_manager\<close>: four dicts and the alias counter. A unique key is the string
  \<^verbatim>\<open>"<ip>:<port>"\<close>. \<^verbatim>\<open>ConnectionManager._tcp_clients\<close> maps a unique key to the
  robot's \<^verbatim>\<open>(reader, writer)\<close> pair, of which only the writer matters here.
\<close>

record robot_alias_manager =
  ip_port_to_alias :: "(string \<times> string) list"
  alias_to_ip_port :: "(string \<times> string) list"
  ip_to_alias :: "(string \<times> string) list"
  alias_to_ip :: "(string \<times> string) list"
  next_robot_number :: nat

definition initial_manager :: robot_alias_manager where
  "initial_manager =
     \<lparr>ip_port_to_alias = [], alias_to_ip_port = [], ip_to_alias = [], alias_to_ip = [],
      next_robot_number = 1\<rparr>"

text \<open>Decimal digits of a natural number, as \<^verbatim>\<open>str\<close> and the f-strings print it.\<close>

definition digit_char :: "nat \<Rightarrow> char" where
  "digit_char d = ''0123456789'' ! d"

function string_of_nat :: "nat \<Rightarrow> string" where
  "string_of_nat n =
     (if n < 10 then [digit_char n] else string_of_nat (n div 10) @ [digit_char (n mod 10)])"
  by pat_completeness auto
termination
  by (relation "measure id") auto

declare string_of_nat.simps [simp del]

definition unique_key_of :: "string \<Rightarrow> nat \<Rightarrow> string" where
  "unique_key_of ip port = ip @ '':'' @ string_of_nat port"

text \<open>
  The alias assignment at the head of \<^verbatim>\<open>handle_tcp_client\<close> and the registration
  with the \<^verbatim>\<open>ConnectionManager\<close>.
\<close>

definition assign_alias :: "robot_alias_manager \<Rightarrow> string \<Rightarrow> nat \<Rightarrow> robot_alias_manager \<times> string" where
  "assign_alias mgr robot_ip_address robot_port =
     (let unique_robot_key = unique_key_of robot_ip_address robot_port in
      case map_of (ip_port_to_alias mgr) unique_robot_key of
        None \<Rightarrow>
          (let current_alias = ''robot'' @ string_of_nat (next_robot_number mgr);
               mgr1 = mgr\<lparr>ip_port_to_alias :=
                             dict_set (ip_port_to_alias mgr) unique_robot_key current_alias,
                          alias_to_ip_port :=
                             dict_set (alias_to_ip_port mgr) current_alias unique_robot_key\<rparr>;
               mgr2 = (if \<not> has_key (ip_to_alias mgr1) robot_ip_address
                       then mgr1\<lparr>ip_to_alias :=
                                    dict_set (ip_to_alias mgr1) robot_ip_address current_alias,
                                  alias_to_ip :=
                                    dict_set (alias_to_ip mgr1) current_alias robot_ip_address\<rparr>
                       else mgr1)
           in (mgr2\<lparr>next_robot_number := next_robot_number mgr2 + 1\<rparr>, current_alias))
      | Some current_alias \<Rightarrow> (mgr, current_alias))"

definition set_tcp_client :: "(string \<rightharpoonup> 'w) \<Rightarrow> string \<Rightarrow> 'w \<Rightarrow> (string \<rightharpoonup> 'w)" where
  "set_tcp_client tcp_clients robot_id tcp_client = tcp_clients(robot_id \<mapsto> tcp_client)"

text \<open>\<^verbatim>\<open>normalize_robot_id\<close>: the first \<^verbatim>\<open>/\<close> becomes \<^verbatim>\<open>_\<close>.\<close>

fun normalize_robot_id :: "string \<Rightarrow> string" where
  "normalize_robot_id [] = []"
| "normalize_robot_id (c # cs) =
     (if c = CHR ''/'' then CHR ''_'' # cs else c # normalize_robot_id cs)"

definition get_tcp_client :: "(string \<rightharpoonup> 'w) \<Rightarrow> string \<Rightarrow> 'w option" where
  "get_tcp_client tcp_clients robot_id = tcp_clients (normalize_robot_id robot_id)"

text \<open>
  The target fields \<^verbatim>\<open>robot_ip\<close> and \<^verbatim>\<open>robot_alias\<close> of a UI command are strings or
  absent (\<open>None\<close>); \<^verbatim>\<open>if target_ip:\<close> holds for a non-empty string.
\<close>

fun truthy_str :: "string option \<Rightarrow> bool" where
  "truthy_str None = False"
| "truthy_str (Some s) = (s \<noteq> [])"

text \<open>\<^verbatim>\<open>d.get(k)\<close> for an optional key; \<^verbatim>\<open>None\<close> is no key of these dicts.\<close>

fun get_opt :: "(string \<times> 'v) list \<Rightarrow> string option \<Rightarrow> 'v option" where
  "get_opt d None = None"
| "get_opt d (Some k) = map_of d k"

text \<open>
  The resolution of \<^verbatim>\<open>send_to_robot\<close> (the source comments it "prefers IP, then
  alias"): the primary alias of the IP and its unique key; else the first unique key
  that starts with \<^verbatim>\<open>"<ip>:"\<close>; and only when neither gave a key, the alias.
\<close>

definition resolve_by_ip ::
    "robot_alias_manager \<Rightarrow> string \<Rightarrow> string option \<Rightarrow> string option \<times> string option" where
  "resolve_by_ip mgr target_ip target_alias =
     (let found_alias = map_of (ip_to_alias mgr) target_ip;
          unique_key_to_send =
            (if truthy_str found_alias then get_opt (alias_to_ip_port mgr) found_alias else None)
      in if \<not> truthy_str unique_key_to_send
         then (case find (\<lambda>(key, alias_val). prefix (target_ip @ '':'') key)
                      (ip_port_to_alias mgr) of
                 Some (key, alias_val) \<Rightarrow> (Some key, Some alias_val)
               | None \<Rightarrow> (unique_key_to_send, target_alias))
         else (unique_key_to_send, target_alias))"

definition resolve_send_target ::
    "robot_alias_manager \<Rightarrow> string option \<Rightarrow> string option \<Rightarrow> string option" where
  "resolve_send_target mgr target_ip target_alias =
     (let (unique_key_to_send, target_alias') =
            (case target_ip of
               None \<Rightarrow> (None, target_alias)
             | Some ip \<Rightarrow>
                 if ip \<noteq> [] then resolve_by_ip mgr ip target_alias else (None, target_alias))
      in if \<not> truthy_str unique_key_to_send \<and> truthy_str target_alias'
         then get_opt (alias_to_ip_port mgr) target_alias'
         else unique_key_to_send)"

text \<open>What goes on the wire: the PID text line, or the payload as one JSON line.\<close>

datatype wire_command = Pid_text json json json json | Json_line pydict

definition wire_of :: "pydict \<Rightarrow> py_error + wire_command" where
  "wire_of robot_command_payload =
     (if dict_get robot_command_payload ''type'' = JStr ''pid_values'' then
        (let motor = dict_get robot_command_payload ''motor'';
             kp = dict_get robot_command_payload ''kp'';
             ki = dict_get robot_command_payload ''ki'';
             kd = dict_get robot_command_payload ''kd''
         in if motor \<noteq> JNull \<and> kp \<noteq> JNull \<and> ki \<noteq> JNull \<and> kd \<noteq> JNull
            then Inr (Pid_text motor kp ki kd) else Inl ValueError)
      else Inr (Json_line robot_command_payload))"

text \<open>
  The outcome of one \<^verbatim>\<open>send_to_robot\<close> command: the error replies, or the writer the
  command was written to. \<open>write_raises\<close> says whether writing to (or draining) a
  writer raises.
\<close>

datatype 'w relay =
    Invalid_payload
  | Robot_not_found
  | Not_connected
  | Send_error 'w
  | Sent_to_robot 'w wire_command

definition send_to_robot ::
    "robot_alias_manager \<Rightarrow> (string \<rightharpoonup> 'w) \<Rightarrow> ('w \<Rightarrow> bool) \<Rightarrow>
     string option \<Rightarrow> string option \<Rightarrow> json \<Rightarrow> 'w relay" where
  "send_to_robot mgr tcp_clients write_raises target_ip target_alias robot_command_payload =
     (if \<not> truthy robot_command_payload \<or> \<not> is_dict robot_command_payload
      then Invalid_payload
      else
        (case resolve_send_target mgr target_ip target_alias of
           None \<Rightarrow> Robot_not_found
         | Some unique_key_to_send \<Rightarrow>
             if unique_key_to_send = [] then Robot_not_found
             else
               (case get_tcp_client tcp_clients unique_key_to_send of
                  None \<Rightarrow> Not_connected
                | Some writer_to_use \<Rightarrow>
                    (case wire_of (the_dict robot_command_payload) of
                       Inl e \<Rightarrow> Send_error writer_to_use
                     | Inr cmd \<Rightarrow>
                         if write_raises writer_to_use then Send_error writer_to_use
                         else Sent_to_robot writer_to_use cmd))))"

text \<open>The robot an alias designates, and the robot an IP designates through its primary alias.\<close>

definition robot_of_alias :: "robot_alias_manager \<Rightarrow> string \<Rightarrow> string option" where
  "robot_of_alias mgr alias = map_of (alias_to_ip_port mgr) alias"

definition robot_of_ip :: "robot_alias_manager \<Rightarrow> string \<Rightarrow> string option" where
  "robot_of_ip mgr ip =
     (case map_of (ip_to_alias mgr) ip of
        None \<Rightarrow> None
      | Some alias \<Rightarrow> if alias \<noteq> [] then map_of (alias_to_ip_port mgr) alias else None)"

text \<open>Two robots connected one after the other, with writers 1 and 2.\<close>

definition two_robots :: robot_alias_manager where
  "two_robots =
     fst (assign_alias (fst (assign_alias initial_manager ''10.0.0.5'' 50000)) ''10.0.0.6'' 50000)"

definition two_clients :: "string \<rightharpoonup> nat" where
  "two_clients =
     set_tcp_client (set_tcp_client Map.empty (unique_key_of ''10.0.0.5'' 50000) 1)
       (unique_key_of ''10.0.0.6'' 50000) 2"

section \<open>Trajectory request\<close>

text \<open>
  The \<^verbatim>\<open>request_trajectory\<close> branch of \<^verbatim>\<open>handle_ws_client\<close> reads the attribute
  \<^verbatim>\<open>max_points\<close> of the bridge's \<^verbatim>\<open>TrajectoryCalculator\<close> and calls its method
  \<^verbatim>\<open>get_trajectory\<close>. The class defines the instance attribute \<^verbatim>\<open>robot_data\<close> and
  the methods listed below and nothing else, so a lookup of another name raises
  \<^verbatim>\<open>AttributeError\<close>, which the handler's \<^verbatim>\<open>except Exception\<close> turns into a
  \<^verbatim>\<open>Server error\<close> reply. What the two names would yield were they defined is left
  open as the parameters \<open>max_points\<close> and \<open>get_trajectory\<close>.
\<close>

definition TrajectoryCalculator_attributes :: "string list" where
  "TrajectoryCalculator_attributes =
     [''robot_data'', ''__init__'', ''_ensure_robot_data'', ''update_imu_data'',
      ''_rpm_to_omega'', ''update_encoder_data'', ''_try_calculate_trajectory'']"

definition getattr_TrajectoryCalculator :: "string \<Rightarrow> 'a \<Rightarrow> py_error + 'a" where
  "getattr_TrajectoryCalculator name v =
     (if name \<in> set TrajectoryCalculator_attributes then Inr v
      else Inl (AttributeError name))"

datatype ws_reply =
    Trajectory_data "string option" string json
  | Error_reply string
  | Server_error py_error

definition request_trajectory ::
    "json \<Rightarrow> (string \<Rightarrow> json \<Rightarrow> json) \<Rightarrow> robot_alias_manager \<Rightarrow>
     string option \<Rightarrow> string option \<Rightarrow> pydict \<Rightarrow> ws_reply" where
  "request_trajectory max_points get_trajectory mgr target_ip target_alias payload =
     (case getattr_TrajectoryCalculator ''max_points'' max_points of
        Inl e \<Rightarrow> Server_error e
      | Inr dflt \<Rightarrow>
          (let limit = dict_get_default payload ''limit'' dflt;
               unique_key_for_traj =
                 (if truthy_str target_alias then get_opt (alias_to_ip_port mgr) target_alias
                  else if truthy_str target_ip then
                    (let primary_alias_for_ip = get_opt (ip_to_alias mgr) target_ip
                     in if truthy_str primary_alias_for_ip
                        then get_opt (alias_to_ip_port mgr) primary_alias_for_ip else None)
                  else None)
           in case unique_key_for_traj of
                None \<Rightarrow> Error_reply ''Robot not found for trajectory request.''
              | Some k \<Rightarrow>
                  if k = [] then Error_reply ''Robot not found for trajectory request.''
                  else
                    (case getattr_TrajectoryCalculator ''get_trajectory'' get_trajectory of
                       Inl e \<Rightarrow> Server_error e
                     | Inr method \<Rightarrow>
                         (let trajectory_data = method k limit in
                          if truthy trajectory_data
                          then Trajectory_data
                                 (case map_of (ip_port_to_alias mgr) k of
                                    Some a \<Rightarrow> Some a
                                  | None \<Rightarrow> if truthy_str target_alias then target_alias
                                            else target_ip)
                                 (takeWhile (\<lambda>c. c \<noteq> CHR '':'') k) trajectory_data
                          else Error_reply ''No trajectory data for robot.''))))"

section \<open>Subscription router\<close>

text \<open>
  \<^verbatim>\<open>websocket_subscriptions\<close> maps a client address to a dict from entity key (a robot
  alias or \<^verbatim>\<open>__GLOBAL__\<close>) to a set of data types. The outer dict is iterated by the
  broadcast, so it is an association list; the inner one is only looked up. A
  websocket is known by an identity and its \<^verbatim>\<open>remote_address\<close>; \<^verbatim>\<open>ui_websockets\<close> is
  listed in the order the set is iterated. Data types and aliases are strings.
\<close>

type_synonym client_addr = "string \<times> nat"

type_synonym client_subs = "string \<rightharpoonup> string set"

type_synonym subscriptions = "(client_addr \<times> client_subs) list"

record websocket =
  ws_id :: nat
  remote_address :: client_addr

definition GLOBAL_SUBSCRIPTION_KEY :: string where
  "GLOBAL_SUBSCRIPTION_KEY = ''__GLOBAL__''"

datatype sub_reply = Sub_error string | Sub_ack string

text \<open>The block under \<^verbatim>\<open>subscribers_lock\<close> of \<^verbatim>\<open>subscribe\<close>.\<close>

definition add_subscription ::
    "subscriptions \<Rightarrow> client_addr \<Rightarrow> string \<Rightarrow> string \<Rightarrow> subscriptions" where
  "add_subscription subs client_addr entity_key data_type_to_sub =
     (let subs1 = (if \<not> has_key subs client_addr
                   then dict_set subs client_addr Map.empty else subs);
          m = (case map_of subs1 client_addr of None \<Rightarrow> Map.empty | Some m \<Rightarrow> m);
          m1 = (if m entity_key = None then m(entity_key \<mapsto> {}) else m);
          s = (case m1 entity_key of None \<Rightarrow> {} | Some s \<Rightarrow> s)
      in dict_set subs1 client_addr (m1(entity_key \<mapsto> insert data_type_to_sub s)))"

definition subscribe ::
    "robot_alias_manager \<Rightarrow> subscriptions \<Rightarrow> client_addr \<Rightarrow> string option \<Rightarrow> string option
     \<Rightarrow> subscriptions \<times> sub_reply" where
  "subscribe mgr subs client_addr data_type_to_sub target_alias =
     (case data_type_to_sub of
        None \<Rightarrow> (subs, Sub_error ''Missing type (data_type) for subscription'')
      | Some t \<Rightarrow>
          if t = [] then (subs, Sub_error ''Missing type (data_type) for subscription'')
          else
            (case target_alias of
               None \<Rightarrow> (subs, Sub_error ''Missing robot_alias for subscription'')
             | Some a \<Rightarrow>
                 if a = [] then (subs, Sub_error ''Missing robot_alias for subscription'')
                 else if \<not> has_key (alias_to_ip_port mgr) a
                 then (subs, Sub_error ''Unknown robot_alias for subscription.'')
                 else (add_subscription subs client_addr a t, Sub_ack ''success'')))"

text \<open>The block under the lock of \<^verbatim>\<open>unsubscribe\<close>, with whether a subscription was found.\<close>

definition remove_subscription ::
    "subscriptions \<Rightarrow> client_addr \<Rightarrow> string \<Rightarrow> string \<Rightarrow> subscriptions \<times> bool" where
  "remove_subscription subs client_addr entity_key data_type_to_unsub =
     (case map_of subs client_addr of
        None \<Rightarrow> (subs, False)
      | Some m \<Rightarrow>
          (case m entity_key of
             None \<Rightarrow> (subs, False)
           | Some s \<Rightarrow>
               (let s1 = s - {data_type_to_unsub};
                    m1 = (if s1 = {} then m(entity_key := None) else m(entity_key \<mapsto> s1))
                in (if m1 = Map.empty then dict_del subs client_addr
                    else dict_set subs client_addr m1, True))))"

definition unsubscribe ::
    "subscriptions \<Rightarrow> client_addr \<Rightarrow> string option \<Rightarrow> string option
     \<Rightarrow> subscriptions \<times> sub_reply" where
  "unsubscribe subs client_addr data_type_to_unsub target_alias =
     (case data_type_to_unsub of
        None \<Rightarrow> (subs, Sub_error ''Missing type (data_type) for unsubscription'')
      | Some t \<Rightarrow>
          if t = [] then (subs, Sub_error ''Missing type (data_type) for unsubscription'')
          else
            (case target_alias of
               None \<Rightarrow> (subs, Sub_error ''Missing robot_alias for unsubscription'')
             | Some a \<Rightarrow>
                 if a = [] then (subs, Sub_error ''Missing robot_alias for unsubscription'')
                 else
                   (case remove_subscription subs client_addr a t of
                      (subs1, True) \<Rightarrow> (subs1, Sub_ack ''success'')
                    | (subs1, False) \<Rightarrow> (subs1, Sub_ack ''not_subscribed''))))"

text \<open>
  The subscription map of a client, as the router reads it: a client with no entry
  holds no subscription.
\<close>

definition subs_of :: "subscriptions \<Rightarrow> client_addr \<Rightarrow> client_subs" where
  "subs_of subs client_addr =
     (case map_of subs client_addr of None \<Rightarrow> Map.empty | Some m \<Rightarrow> m)"

definition types_of :: "subscriptions \<Rightarrow> client_addr \<Rightarrow> string \<Rightarrow> string set" where
  "types_of subs client_addr entity_key =
     (case subs_of subs client_addr entity_key of None \<Rightarrow> {} | Some s \<Rightarrow> s)"

text \<open>
  \<^verbatim>\<open>broadcast_to_subscribers\<close>. Every \<^verbatim>\<open>ws_client.send\<close> is an event: the websocket,
  the branch that sent (specific or global subscription) and the outcome, which the
  parameter \<open>outcome\<close> supplies. A frame whose type is not a string matches no
  subscription (on an unhashable type Python raises at the first membership test),
  so nothing is sent for it.
\<close>

datatype branch = Specific | Global

datatype send_outcome = Delivered | ConnectionClosed | Other_error

type_synonym send_event = "websocket \<times> branch \<times> send_outcome"

definition active_websockets_map :: "websocket list \<Rightarrow> (client_addr \<times> websocket) list" where
  "active_websockets_map ui_websockets =
     foldl (\<lambda>d ws. dict_set d (remote_address ws) ws) [] ui_websockets"

definition subscribed :: "client_subs \<Rightarrow> string \<Rightarrow> string \<Rightarrow> bool" where
  "subscribed client_specific_subs entity_key data_type =
     (case client_specific_subs entity_key of None \<Rightarrow> False | Some s \<Rightarrow> data_type \<in> s)"

definition client_sends ::
    "(websocket \<Rightarrow> branch \<Rightarrow> send_outcome) \<Rightarrow> string \<Rightarrow> string \<Rightarrow> websocket \<Rightarrow> client_subs
     \<Rightarrow> send_event list" where
  "client_sends outcome robot_alias_source data_type_to_send ws_client client_specific_subs =
     (let specific = subscribed client_specific_subs robot_alias_source data_type_to_send;
          first = (if specific then [(ws_client, Specific, outcome ws_client Specific)] else []);
          sent_to_this_client_for_payload = (specific \<and> outcome ws_client Specific = Delivered);
          second = (if \<not> sent_to_this_client_for_payload
                       \<and> subscribed client_specific_subs GLOBAL_SUBSCRIPTION_KEY data_type_to_send
                    then [(ws_client, Global, outcome ws_client Global)] else [])
      in first @ second)"

text \<open>The loop over the subscription entries, skipping clients with no active websocket.\<close>

definition broadcast_events ::
    "(websocket \<Rightarrow> branch \<Rightarrow> send_outcome) \<Rightarrow> (client_addr \<times> websocket) list \<Rightarrow> string \<Rightarrow> string
     \<Rightarrow> subscriptions \<Rightarrow> send_event list" where
  "broadcast_events outcome active_map robot_alias_source data_type_to_send subs =
     concat (map (\<lambda>(client_addr, client_specific_subs).
                    case map_of active_map client_addr of
                      None \<Rightarrow> []
                    | Some ws_client \<Rightarrow>
                        client_sends outcome robot_alias_source data_type_to_send
                          ws_client client_specific_subs) subs)"

definition broadcast_to_subscribers ::
    "(websocket \<Rightarrow> branch \<Rightarrow> send_outcome) \<Rightarrow> websocket list \<Rightarrow> subscriptions \<Rightarrow> string \<Rightarrow> pydict
     \<Rightarrow> send_event list \<times> websocket list \<times> subscriptions" where
  "broadcast_to_subscribers outcome ui_websockets subs robot_alias_source payload =
     (if \<not> has_key payload ''type'' \<or> dict_get payload ''robot_alias'' \<noteq> JStr robot_alias_source
      then ([], ui_websockets, subs)
      else
        (case dict_get payload ''type'' of
           JStr data_type_to_send \<Rightarrow>
             (let events = broadcast_events outcome (active_websockets_map ui_websockets)
                             robot_alias_source data_type_to_send subs;
                  clients_failed_to_send =
                    map fst (filter (\<lambda>(ws, b, r). r \<noteq> Delivered) events)
              in (events,
                  filter (\<lambda>ws. ws \<notin> set clients_failed_to_send) ui_websockets,
                  filter (\<lambda>(a, m). a \<notin> remote_address ` set clients_failed_to_send) subs))
         | _ \<Rightarrow> ([], ui_websockets, subs)))"

text \<open>The sends of a broadcast that went to one websocket, and those that got through.\<close>

definition sends_to :: "websocket \<Rightarrow> send_event list \<Rightarrow> send_event list" where
  "sends_to ws events = filter (\<lambda>(w, b, r). w = ws) events"

definition delivered_to :: "websocket \<Rightarrow> send_event list \<Rightarrow> nat" where
  "delivered_to ws events = length (filter (\<lambda>(w, b, r). w = ws \<and> r = Delivered) events)"

section \<open>PID configuration file\<close>

text \<open>
  \<^verbatim>\<open>load_pid_config_from_file\<close> and \<^verbatim>\<open>save_pid_config_to_file\<close>. The file is the list
  of its lines (\<open>None\<close> when it cannot be opened). Python's \<^verbatim>\<open>int\<close> and \<^verbatim>\<open>float\<close> on
  a string are the parameters \<open>py_int\<close> and \<open>py_float\<close>, with \<open>None\<close> for
  \<^verbatim>\<open>ValueError\<close>; the formatting of a float in an f-string is \<open>fmt_float\<close>.
\<close>

definition py_isspace :: "char \<Rightarrow> bool" where
  "py_isspace c =
     (c \<in> set [CHR 0x09, CHR 0x0A, CHR 0x0B, CHR 0x0C, CHR 0x0D, CHR 0x1C, CHR 0x1D,
                CHR 0x1E, CHR 0x1F, CHR 0x20, CHR 0x85, CHR 0xA0])"

definition py_strip :: "string \<Rightarrow> string" where
  "py_strip s = rev (dropWhile py_isspace (rev (dropWhile py_isspace s)))"

text \<open>\<^verbatim>\<open>s.split(sep)\<close> for a one-character separator.\<close>

fun split_on :: "char \<Rightarrow> string \<Rightarrow> string list" where
  "split_on sep [] = [[]]"
| "split_on sep (c # cs) =
     (if c = sep then [] # split_on sep cs
      else (case split_on sep cs of
              [] \<Rightarrow> [[c]]
            | p # ps \<Rightarrow> (c # p) # ps))"

text \<open>\<^verbatim>\<open>s.replace("Motor", "")\<close>.\<close>

fun replace_Motor :: "string \<Rightarrow> string" where
  "replace_Motor [] = []"
| "replace_Motor (c # cs) =
     (if prefix ''Motor'' (c # cs) then replace_Motor (drop 4 cs) else c # replace_Motor cs)"

record pid =
  kp :: real
  ki :: real
  kd :: real

datatype line_result = Skipped | Malformed_line | Malformed_entry | Entry int pid

definition load_pid_line ::
    "(string \<Rightarrow> int option) \<Rightarrow> (string \<Rightarrow> real option) \<Rightarrow> string \<Rightarrow> line_result" where
  "load_pid_line py_int py_float raw_line =
     (let line = py_strip raw_line in
      if line = [] \<or> prefix ''#'' line then Skipped
      else
        (case split_on CHR '','' line of
           [p0, p1, p2, p3] \<Rightarrow>
             (case py_int (py_strip (replace_Motor p0)) of
                None \<Rightarrow> Malformed_entry
              | Some motor_id \<Rightarrow>
                  (case (py_float p1, py_float p2, py_float p3) of
                     (Some a, Some b, Some c) \<Rightarrow> Entry motor_id \<lparr>kp = a, ki = b, kd = c\<rparr>
                   | _ \<Rightarrow> Malformed_entry))
         | _ \<Rightarrow> Malformed_line))"

definition load_pid_lines ::
    "(string \<Rightarrow> int option) \<Rightarrow> (string \<Rightarrow> real option) \<Rightarrow> string list \<Rightarrow> (int \<times> pid) list" where
  "load_pid_lines py_int py_float lines =
     foldl (\<lambda>pid_data_per_motor line.
              case load_pid_line py_int py_float line of
                Entry motor_id p \<Rightarrow> dict_set pid_data_per_motor motor_id p
              | _ \<Rightarrow> pid_data_per_motor) [] lines"

text \<open>The loader called for caching (\<^verbatim>\<open>target_robot_ip=None\<close>): the dict, or \<^verbatim>\<open>None\<close>.\<close>

definition load_pid_config_from_file ::
    "(string \<Rightarrow> int option) \<Rightarrow> (string \<Rightarrow> real option) \<Rightarrow> string list option
     \<Rightarrow> (int \<times> pid) list option" where
  "load_pid_config_from_file py_int py_float file =
     (case file of
        None \<Rightarrow> None
      | Some lines \<Rightarrow>
          (let pid_data_per_motor = load_pid_lines py_int py_float lines
           in if pid_data_per_motor = [] then None else Some pid_data_per_motor))"

text \<open>
  The writer: one line \<^verbatim>\<open>Motor<n>:<kp>,<ki>,<kd>\<close> per motor, or the three default
  lines when it is given no data.
\<close>

definition save_pid_config_to_file ::
    "(real \<Rightarrow> string) \<Rightarrow> (nat \<times> pid) list option \<Rightarrow> string list" where
  "save_pid_config_to_file fmt_float pid_data_per_motor =
     (case pid_data_per_motor of
        None \<Rightarrow> map (\<lambda>i. ''Motor'' @ string_of_nat i @ '':0.0,0.0,0.0'' @ [CHR 0x0A]) [1, 2, 3]
      | Some d \<Rightarrow>
          if d = []
          then map (\<lambda>i. ''Motor'' @ string_of_nat i @ '':0.0,0.0,0.0'' @ [CHR 0x0A]) [1, 2, 3]
          else map (\<lambda>(motor_num, pids).
                      ''Motor'' @ string_of_nat motor_num @ '':'' @ fmt_float (kp pids) @ '',''
                        @ fmt_float (ki pids) @ '','' @ fmt_float (kd pids) @ [CHR 0x0A]) d)"

section \<open>Firmware staging and OTA server\<close>

text \<open>
  \<^verbatim>\<open>FirmwareUploadManager\<close> and \<^verbatim>\<open>OTAConnection\<close>. The file system is the contents of
  the files by path and the set of open file handles. The robot IP of the upload
  commands is a string. \<^verbatim>\<open>received\<close> is an int; \<^verbatim>\<open>filesize\<close> is whatever value the
  \<^verbatim>\<open>upload_firmware_start\<close> command carried (\<open>JNull\<close> when it carried none).
\<close>

record upload_info =
  up_file :: nat
  up_path :: string
  filesize :: json
  received :: int

record file_system =
  files :: "string \<rightharpoonup> string"
  open_handles :: "nat set"

record ota_connection =
  firmware_to_send_path :: "string option"
  ota_server_robot_ip_target :: "string option"

text \<open>\<^verbatim>\<open>n == v\<close> for an int and a value: numbers compare by value, \<^verbatim>\<open>True\<close> is 1.\<close>

fun py_eq_int :: "int \<Rightarrow> json \<Rightarrow> bool" where
  "py_eq_int n (JInt m) = (n = m)"
| "py_eq_int n (JFloat r) = (of_int n = r)"
| "py_eq_int n (JBool b) = (n = (if b then 1 else 0))"
| "py_eq_int n _ = False"

text \<open>
  \<^verbatim>\<open>start\<close>: the path (built from the temp directory, the IP, the time and the file
  name) and the handle \<^verbatim>\<open>open\<close> returns are given.
\<close>

definition start ::
    "file_system \<Rightarrow> (string \<rightharpoonup> upload_info) \<Rightarrow> string \<Rightarrow> string \<Rightarrow> nat \<Rightarrow> json
     \<Rightarrow> file_system \<times> (string \<rightharpoonup> upload_info)" where
  "start fs uploads robot_ip path f fsize =
     (fs\<lparr>files := (files fs)(path \<mapsto> []), open_handles := insert f (open_handles fs)\<rparr>,
      uploads(robot_ip \<mapsto> \<lparr>up_file = f, up_path = path, filesize = fsize, received = 0\<rparr>))"

definition add_chunk ::
    "(string \<Rightarrow> string option) \<Rightarrow> file_system \<Rightarrow> (string \<rightharpoonup> upload_info) \<Rightarrow> string \<Rightarrow> string
     \<Rightarrow> file_system \<times> (string \<rightharpoonup> upload_info) \<times> (py_error + int)" where
  "add_chunk b64decode fs uploads robot_ip b64_chunk =
     (case uploads robot_ip of
        None \<Rightarrow> (fs, uploads, Inr 0)
      | Some info \<Rightarrow>
          (case b64decode b64_chunk of
             None \<Rightarrow> (fs, uploads, Inl ValueError)
           | Some raw \<Rightarrow>
               (fs\<lparr>files := (case files fs (up_path info) of
                                 None \<Rightarrow> files fs
                               | Some old \<Rightarrow> (files fs)(up_path info \<mapsto> old @ raw))\<rparr>,
                uploads(robot_ip \<mapsto> info\<lparr>received := received info + int (length raw)\<rparr>),
                Inr (received info + int (length raw)))))"

definition finish ::
    "file_system \<Rightarrow> (string \<rightharpoonup> upload_info) \<Rightarrow> string
     \<Rightarrow> file_system \<times> (string \<rightharpoonup> upload_info) \<times> string option" where
  "finish fs uploads robot_ip =
     (case uploads robot_ip of
        None \<Rightarrow> (fs, uploads, None)
      | Some info \<Rightarrow>
          (fs\<lparr>open_handles := open_handles fs - {up_file info}\<rparr>,
           uploads(robot_ip := None),
           if \<not> py_eq_int (received info) (filesize info) then None else Some (up_path info)))"

definition prepare_firmware_for_send ::
    "file_system \<Rightarrow> ota_connection \<Rightarrow> string \<Rightarrow> string \<Rightarrow> ota_connection \<times> bool" where
  "prepare_firmware_for_send fs ota file_path target_robot_ip =
     (if files fs file_path = None then (ota, False)
      else (ota\<lparr>firmware_to_send_path := Some file_path,
                ota_server_robot_ip_target := Some target_robot_ip\<rparr>, True))"

datatype fw_reply = Firmware_prepared_for_ota nat | Error_upload_finish | Fw_server_error

text \<open>The \<^verbatim>\<open>upload_firmware_end\<close> branch of \<^verbatim>\<open>handle_ws_client\<close>.\<close>

definition upload_firmware_end ::
    "file_system \<Rightarrow> (string \<rightharpoonup> upload_info) \<Rightarrow> ota_connection \<Rightarrow> string
     \<Rightarrow> file_system \<times> (string \<rightharpoonup> upload_info) \<times> ota_connection \<times> fw_reply" where
  "upload_firmware_end fs uploads ota robot_ip =
     (case finish fs uploads robot_ip of
        (fs1, uploads1, fw_path) \<Rightarrow>
          if truthy_str fw_path then
            (case fw_path of
               None \<Rightarrow> (fs1, uploads1, ota, Error_upload_finish)
             | Some p \<Rightarrow>
                 (let ota1 = fst (prepare_firmware_for_send fs1 ota p robot_ip) in
                  case files fs1 p of
                    None \<Rightarrow> (fs1, uploads1, ota1, Fw_server_error)
                  | Some contents \<Rightarrow>
                      (fs1, uploads1, ota1, Firmware_prepared_for_ota (length contents))))
          else (fs1, uploads1, ota, Error_upload_finish))"

text \<open>
  \<^verbatim>\<open>handle_ota_robot_connection\<close>. The OTA server runs one task per accepted connection,
  and a handler gives up control at every \<^verbatim>\<open>await writer.drain()\<close> of its send loop,
  so handlers interleave: the arm is read when the connection is accepted and is
  cleared only when the handler's loop has ended. The world of the OTA server is the
  arm, the file system, the handlers suspended in a drain and the connections that
  were closed, each with what was written to it.

  A suspended handler keeps the path it read from the arm, what its open file still
  holds unread and what it wrote so far. A closed connection records whether its
  handler had a firmware path (entered the \<^verbatim>\<open>try\<close> block).
\<close>

record ota_task =
  task_peer :: string
  task_path :: string
  task_rest :: string
  task_sent :: string

record ota_done =
  done_id :: nat
  done_peer :: string
  done_sent :: string
  done_transfer :: bool

record ota_world =
  w_ota :: ota_connection
  w_fs :: file_system
  w_tasks :: "(nat \<times> ota_task) list"
  w_done :: "ota_done list"
  w_next :: nat

text \<open>
  The events: a connection from a peer is accepted, or the handler of a connection is
  resumed from its drain. \<open>Resume id drain_raised remove_raises\<close> says whether the drain
  (or the write before it) raised, and whether deleting the sent file raises
  \<^verbatim>\<open>OSError\<close>; \<open>Accept peer remove_raises\<close> carries the latter for a file that is empty.
\<close>

datatype ota_event = Accept string bool | Resume nat bool bool

definition clear_arm :: "ota_connection \<Rightarrow> ota_connection" where
  "clear_arm ota = ota\<lparr>firmware_to_send_path := None, ota_server_robot_ip_target := None\<rparr>"

text \<open>The \<^verbatim>\<open>except\<close> branch: the arm is cleared if it is still this handler's.\<close>

definition clear_after_error :: "ota_connection \<Rightarrow> string \<Rightarrow> string \<Rightarrow> ota_connection" where
  "clear_after_error ota robot_actual_ip current_firmware_path_for_this_connection =
     (if ota_server_robot_ip_target ota = Some robot_actual_ip
         \<and> firmware_to_send_path ota = Some current_firmware_path_for_this_connection
      then clear_arm ota else ota)"

definition close_connection :: "ota_world \<Rightarrow> nat \<Rightarrow> string \<Rightarrow> string \<Rightarrow> bool \<Rightarrow> ota_world" where
  "close_connection w conn peer sent transfer =
     w\<lparr>w_done := w_done w @
          [\<lparr>done_id = conn, done_peer = peer, done_sent = sent, done_transfer = transfer\<rparr>]\<rparr>"

text \<open>
  One turn of the send loop: \<^verbatim>\<open>f.read(1024)\<close>; on an empty chunk the loop ends, the
  arm is cleared, the file deleted and the connection closed; else the chunk is
  written and the handler suspends in the drain.
\<close>

definition ota_continue :: "ota_world \<Rightarrow> nat \<Rightarrow> ota_task \<Rightarrow> bool \<Rightarrow> ota_world" where
  "ota_continue w conn task remove_raises =
     (if task_rest task = [] then
        close_connection
          (w\<lparr>w_ota := clear_arm (w_ota w),
             w_fs := (if remove_raises then w_fs w
                      else (w_fs w)\<lparr>files := (files (w_fs w))(task_path task := None)\<rparr>)\<rparr>)
          conn (task_peer task) (task_sent task) True
      else
        w\<lparr>w_tasks := dict_set (w_tasks w) conn
              (task\<lparr>task_sent := task_sent task @ take 1024 (task_rest task),
                    task_rest := drop 1024 (task_rest task)\<rparr>)\<rparr>)"

text \<open>
  A connection is accepted: the handler reads the arm; without a firmware for this
  peer it closes the connection; else it opens the file (a missing file raises) and
  enters the loop.
\<close>

definition ota_accept :: "ota_world \<Rightarrow> string \<Rightarrow> bool \<Rightarrow> ota_world" where
  "ota_accept w robot_actual_ip remove_raises =
     (let conn = w_next w;
          w1 = w\<lparr>w_next := Suc conn\<rparr>;
          current_firmware_path_for_this_connection =
            (if truthy_str (firmware_to_send_path (w_ota w))
                \<and> ota_server_robot_ip_target (w_ota w) = Some robot_actual_ip
             then firmware_to_send_path (w_ota w) else None)
      in case current_firmware_path_for_this_connection of
           None \<Rightarrow> close_connection w1 conn robot_actual_ip [] False
         | Some p \<Rightarrow>
             if p = [] then close_connection w1 conn robot_actual_ip [] False
             else
               (case files (w_fs w) p of
                  None \<Rightarrow>
                    close_connection
                      (w1\<lparr>w_ota := clear_after_error (w_ota w) robot_actual_ip p\<rparr>)
                      conn robot_actual_ip [] True
                | Some contents \<Rightarrow>
                    ota_continue w1 conn
                      \<lparr>task_peer = robot_actual_ip, task_path = p,
                       task_rest = contents, task_sent = []\<rparr> remove_raises))"

text \<open>A suspended handler is resumed: its drain raised, or the loop takes its next turn.\<close>

definition ota_resume :: "ota_world \<Rightarrow> nat \<Rightarrow> bool \<Rightarrow> bool \<Rightarrow> ota_world" where
  "ota_resume w conn drain_raised remove_raises =
     (case map_of (w_tasks w) conn of
        None \<Rightarrow> w
      | Some task \<Rightarrow>
          (let w1 = w\<lparr>w_tasks := dict_del (w_tasks w) conn\<rparr> in
           if drain_raised
           then close_connection
                  (w1\<lparr>w_ota := clear_after_error (w_ota w) (task_peer task) (task_path task)\<rparr>)
                  conn (task_peer task) (task_sent task) True
           else ota_continue w1 conn task remove_raises))"

fun ota_step :: "ota_world \<Rightarrow> ota_event \<Rightarrow> ota_world" where
  "ota_step w (Accept peer remove_raises) = ota_accept w peer remove_raises"
| "ota_step w (Resume conn drain_raised remove_raises) =
     ota_resume w conn drain_raised remove_raises"

definition run_ota :: "ota_world \<Rightarrow> ota_event list \<Rightarrow> ota_world" where
  "run_ota w events = foldl ota_step w events"

text \<open>The OTA server armed with a file for an IP, before any connection.\<close>

definition armed_world :: "file_system \<Rightarrow> string \<Rightarrow> string \<Rightarrow> ota_world" where
  "armed_world fs p ip =
     \<lparr>w_ota = \<lparr>firmware_to_send_path = Some p, ota_server_robot_ip_target = Some ip\<rparr>,
      w_fs = fs, w_tasks = [], w_done = [], w_next = 0\<rparr>"



section \<open>Properties of the frame normalizer\<close>

lemma map_of_dict_set: "map_of (dict_set d k v) = (map_of d)(k \<mapsto> v)"
  by (induction d) auto

lemma has_key_dict_set: "has_key (dict_set d k v) k' = (k' = k \<or> has_key d k')"
  by (simp add: has_key_def map_of_dict_set)

lemma dict_get_dict_set: "dict_get (dict_set d k v) k' = (if k' = k then v else dict_get d k')"
  by (simp add: dict_get_def map_of_dict_set)


lemma is_envelope_type:
  "JStr t \<in> envelope_types fmt ot \<Longrightarrow>
   is_envelope fmt ot (dict_set [(''robot_ip'', a), (''robot_alias'', b), (''timestamp'', c)]
      ''type'' (JStr t))"
  by (simp add: is_envelope_def has_key_dict_set dict_get_dict_set del: dict_set.simps)
     (simp add: has_key_def)

lemma is_envelope_set:
  "is_envelope fmt ot e \<Longrightarrow> k \<noteq> ''type'' \<Longrightarrow> is_envelope fmt ot (dict_set e k v)"
  by (simp add: is_envelope_def has_key_dict_set dict_get_dict_set)

lemma is_envelope_reported:
  "is_envelope fmt ot e \<Longrightarrow> k \<noteq> ''type'' \<Longrightarrow> is_envelope fmt ot (with_reported_id r k e)"
  by (simp add: with_reported_id_def is_envelope_set)

lemma envelope_types_simps:
  "JStr ''imu_data'' \<in> envelope_types fmt ot"
  "JStr ''encoder_data'' \<in> envelope_types fmt ot"
  "JStr ''log'' \<in> envelope_types fmt ot"
  "JStr ''registration'' \<in> envelope_types fmt ot"
  "JStr (generic_type fmt ot) \<in> envelope_types fmt ot"
  "JStr ''unknown_json_data'' \<in> envelope_types fmt ot"
  by (simp_all add: envelope_types_def)

lemmas envelope_intros =
  is_envelope_reported is_envelope_set is_envelope_type envelope_types_simps

text \<open>
  Whenever the normalizer returns, its result is an envelope: every branch but the
  raising one of the registration case.
\<close>

lemma transform_result_is_envelope:
  "on_result (is_envelope fmt (dict_get m ''type'')) (transform_robot_message fmt now m)"
  unfolding transform_robot_message_def Let_def
  by (simp del: dict_set.simps add: envelope_intros split: sum.split)

lemma transform_returns_envelope:
  assumes "transform_robot_message fmt now m = Inr e"
  shows "is_envelope fmt (dict_get m ''type'') e"
  using transform_result_is_envelope [where fmt=fmt and now=now and m=m] assms by simp

text \<open>
  Claim C10 (the normalizer is total on JSON objects and always returns an envelope).
  It is not total: on the registration frame
  \<^verbatim>\<open>{"type":"registration","capabilities":[],"id":"r1","data":5}\<close> the test
  \<^verbatim>\<open>"robot_id" not in message_dict.get("data", {})\<close> is evaluated on the number 5
  and raises \<^verbatim>\<open>TypeError\<close>, for every clock reading and every formatter.
\<close>

theorem transform_registration_raises:
  "transform_robot_message fmt now
     [(''type'', JStr ''registration''), (''capabilities'', JArr []),
      (''id'', JStr ''r1''), (''data'', JInt 5)] = Inl TypeError"
  by (simp add: transform_robot_message_def dict_get_def dict_get_default_def has_key_def)

section \<open>Properties of the pose estimator\<close>


















lemma seed_step1:
  "fst (update_imu_data k t1 c1 seed_imu_frame Map.empty) =
     [k \<mapsto> fresh_robot_state\<lparr>latest_imu_data := Some seed_imu_frame,
                               last_imu_timestamp := Some t1\<rparr>]"
  by (simp add: update_imu_data_def extract_yaw_def has_key_def dict_get_def seed_imu_frame_def
      ensure_robot_data_def try_calculate_trajectory_def current_result_def fresh_robot_state_def
      Let_def current_pose_def)

lemma seed_step2:
  assumes "t1 \<noteq> 0" "t2 \<noteq> 0" "c2 - t1 \<le> 5" "c2 - t2 \<le> 5"
  shows "fst (update_encoder_data k t2 c2 (seed_encoder_frame 100)
          [k \<mapsto> fresh_robot_state\<lparr>latest_imu_data := Some seed_imu_frame,
                               last_imu_timestamp := Some t1\<rparr>]) =
     [k \<mapsto> fresh_robot_state\<lparr>latest_imu_data := Some seed_imu_frame,
                               last_imu_timestamp := Some t1,
                               latest_encoder_data := Some (seed_encoder_frame 100),
                               last_encoder_timestamp := Some t2,
                               last_timestamp_encoder := JFloat 100,
                               path_history := [\<lparr>pose_x = 0, pose_y = 0, pose_theta = JFloat 0\<rparr>]\<rparr>]"
  using assms
  by (simp add: update_encoder_data_def extract_yaw_def has_key_def dict_get_def
      dict_get_default_def seed_imu_frame_def seed_encoder_frame_def too_old_def
      ensure_robot_data_def try_calculate_trajectory_def current_result_def
      current_pose_def fresh_robot_state_def Let_def)

lemma seed_step3:
  assumes "t1 \<noteq> 0" "t3 \<noteq> 0" "c3 - t1 \<le> 5" "c3 - t3 \<le> 5"
  shows "update_encoder_data k t3 c3 (seed_encoder_frame 101)
     [k \<mapsto> fresh_robot_state\<lparr>latest_imu_data := Some seed_imu_frame,
                               last_imu_timestamp := Some t1,
                               latest_encoder_data := Some (seed_encoder_frame 100),
                               last_encoder_timestamp := Some t2,
                               last_timestamp_encoder := JFloat 100,
                               path_history := [\<lparr>pose_x = 0, pose_y = 0, pose_theta = JFloat 0\<rparr>]\<rparr>] =
     ([k \<mapsto> fresh_robot_state\<lparr>latest_imu_data := Some seed_imu_frame,
                               last_imu_timestamp := Some t1,
                               latest_encoder_data := Some (seed_encoder_frame 101),
                               last_encoder_timestamp := Some t3,
                               last_timestamp_encoder := JFloat 101,
                               rs_x := 0.0325 * (2 * pi),
                               path_history := [\<lparr>pose_x = 0, pose_y = 0, pose_theta = JFloat 0\<rparr>,
                                  \<lparr>pose_x = 0.0325 * (2 * pi), pose_y = 0, pose_theta = JFloat 0\<rparr>]\<rparr>],
      Inr (Some (\<lparr>pose_x = 0.0325 * (2 * pi), pose_y = 0, pose_theta = JFloat 0\<rparr>,
                 [\<lparr>pose_x = 0, pose_y = 0, pose_theta = JFloat 0\<rparr>,
                  \<lparr>pose_x = 0.0325 * (2 * pi), pose_y = 0, pose_theta = JFloat 0\<rparr>])))"
  using assms
  by (simp add: update_encoder_data_def extract_yaw_def has_key_def dict_get_def
      dict_get_default_def seed_imu_frame_def seed_encoder_frame_def too_old_def
      ensure_robot_data_def try_calculate_trajectory_def current_result_def
      current_pose_def fresh_robot_state_def py_sub_def integrate_def rpms_to_omegas_def
      rpm_to_omega_def WHEEL_RADIUS_DEFAULT_def limit_path_def
      MAX_TRAJECTORY_POINTS_DEFAULT_def Let_def)

text \<open>
  Claim C5 (pose seed): from a fresh calculator, the IMU frame \<^verbatim>\<open>{yaw: 0.0}\<close>, then
  the encoder frames with timestamps 100.0 and 101.0 and RPMs [60,60,60], every frame
  at most 5 s old when the calculation runs (and no stored clock reading 0, which
  Python's \<^verbatim>\<open>if ts\<close> takes for missing). The first encoder frame leaves (x, y) at
  (0, 0) and seeds \<^verbatim>\<open>last_timestamp_encoder\<close> with 100; after the second the pose is
  (0.0325 * 2 * pi, 0, 0) within 1e-6 (exactly, in real arithmetic).
\<close>

theorem pose_seed:
  assumes "t1 \<noteq> 0" and "t2 \<noteq> 0" and "t3 \<noteq> 0"
    and "c2 - t1 \<le> 5" and "c2 - t2 \<le> 5" and "c3 - t1 \<le> 5" and "c3 - t3 \<le> 5"
    and "rd1 = fst (update_imu_data k t1 c1 seed_imu_frame Map.empty)"
    and "rd2 = fst (update_encoder_data k t2 c2 (seed_encoder_frame 100) rd1)"
    and "rd3 = fst (update_encoder_data k t3 c3 (seed_encoder_frame 101) rd2)"
  shows "rs_x (ensure_robot_data rd2 k) = 0 \<and> rs_y (ensure_robot_data rd2 k) = 0
     \<and> last_timestamp_encoder (ensure_robot_data rd2 k) = JFloat 100
     \<and> \<bar>rs_x (ensure_robot_data rd3 k) - 0.0325 * (2 * pi)\<bar> \<le> 1 / 10 ^ 6
     \<and> \<bar>rs_y (ensure_robot_data rd3 k) - 0\<bar> \<le> 1 / 10 ^ 6
     \<and> (\<exists>th. as_num (rs_theta (ensure_robot_data rd3 k)) = Some th \<and> \<bar>th - 0\<bar> \<le> 1 / 10 ^ 6)"
proof -
  have 1: "rd1 = [k \<mapsto> fresh_robot_state\<lparr>latest_imu_data := Some seed_imu_frame,
                               last_imu_timestamp := Some t1\<rparr>]"
    using assms(8) by (simp only: seed_step1)
  have 2: "rd2 = [k \<mapsto> fresh_robot_state\<lparr>latest_imu_data := Some seed_imu_frame,
                               last_imu_timestamp := Some t1,
                               latest_encoder_data := Some (seed_encoder_frame 100),
                               last_encoder_timestamp := Some t2,
                               last_timestamp_encoder := JFloat 100,
                               path_history := [\<lparr>pose_x = 0, pose_y = 0, pose_theta = JFloat 0\<rparr>]\<rparr>]"
    unfolding assms(9) 1 by (rule seed_step2) (use assms in simp_all)
  have 3: "rd3 = [k \<mapsto> fresh_robot_state\<lparr>latest_imu_data := Some seed_imu_frame,
                               last_imu_timestamp := Some t1,
                               latest_encoder_data := Some (seed_encoder_frame 101),
                               last_encoder_timestamp := Some t3,
                               last_timestamp_encoder := JFloat 101,
                               rs_x := 0.0325 * (2 * pi),
                               path_history := [\<lparr>pose_x = 0, pose_y = 0, pose_theta = JFloat 0\<rparr>,
                                  \<lparr>pose_x = 0.0325 * (2 * pi), pose_y = 0, pose_theta = JFloat 0\<rparr>]\<rparr>]"
    unfolding assms(10) 2 using assms by (simp add: seed_step3)
  show ?thesis
    unfolding 2 3 by (simp add: ensure_robot_data_def fresh_robot_state_def)
qed

theorem pose_seed_witness:
  "rs_x (ensure_robot_data
      (fst (update_encoder_data ''10.0.0.5:50000'' 1001 1001 (seed_encoder_frame 100)
        (fst (update_imu_data ''10.0.0.5:50000'' 1000 1000 seed_imu_frame Map.empty))))
      ''10.0.0.5:50000'') = 0
   \<and> \<bar>rs_x (ensure_robot_data
      (fst (update_encoder_data ''10.0.0.5:50000'' 1002 1002 (seed_encoder_frame 101)
       (fst (update_encoder_data ''10.0.0.5:50000'' 1001 1001 (seed_encoder_frame 100)
        (fst (update_imu_data ''10.0.0.5:50000'' 1000 1000 seed_imu_frame Map.empty))))))
      ''10.0.0.5:50000'') - 0.0325 * (2 * pi)\<bar> \<le> 1 / 10 ^ 6"
  using pose_seed [of 1000 1001 1002 1001 1002 _ "''10.0.0.5:50000''" 1000 _ _, OF _ _ _ _ _ _ _ refl refl refl]
  by simp

section \<open>Properties of the command relay\<close>

lemma string_of_nat_small:
  "string_of_nat (Suc 0) = ''1''" "string_of_nat (Suc (Suc 0)) = ''2''"
  "string_of_nat 1 = ''1''" "string_of_nat 2 = ''2''"
  by (simp_all add: string_of_nat.simps [of "Suc 0"] string_of_nat.simps [of "Suc (Suc 0)"]
      string_of_nat.simps [of 1] string_of_nat.simps [of 2]
      digit_char_def)

lemma string_of_nat_50000: "string_of_nat 50000 = ''50000''"
  by (simp add: string_of_nat.simps [of 50000] string_of_nat.simps [of 5000]
      string_of_nat.simps [of 500] string_of_nat.simps [of 50] string_of_nat.simps [of 5]
      digit_char_def)

lemma two_robots_eq:
  "two_robots =
     \<lparr>ip_port_to_alias = [(''10.0.0.5:50000'', ''robot1''), (''10.0.0.6:50000'', ''robot2'')],
      alias_to_ip_port = [(''robot1'', ''10.0.0.5:50000''), (''robot2'', ''10.0.0.6:50000'')],
      ip_to_alias = [(''10.0.0.5'', ''robot1''), (''10.0.0.6'', ''robot2'')],
      alias_to_ip = [(''robot1'', ''10.0.0.5''), (''robot2'', ''10.0.0.6'')],
      next_robot_number = 3\<rparr>"
  by (simp add: two_robots_def assign_alias_def initial_manager_def unique_key_of_def
      string_of_nat_small string_of_nat_50000 has_key_def Let_def)

lemma two_clients_eq:
  "two_clients = [''10.0.0.5:50000'' \<mapsto> 1, ''10.0.0.6:50000'' \<mapsto> 2]"
  by (simp add: two_clients_def set_tcp_client_def unique_key_of_def string_of_nat_50000)

text \<open>
  Claim C1 (alias wins over IP in \<^verbatim>\<open>send_to_robot\<close>) fails: with robot1 at 10.0.0.5
  and robot2 at 10.0.0.6 connected, a command with \<^verbatim>\<open>robot_ip = "10.0.0.5"\<close> and
  \<^verbatim>\<open>robot_alias = "robot2"\<close> goes to the writer of robot1, the robot of the IP.
\<close>

theorem send_to_robot_ip_wins_counterexample:
  "robot_of_ip two_robots ''10.0.0.5'' = Some ''10.0.0.5:50000''
   \<and> robot_of_alias two_robots ''robot2'' = Some ''10.0.0.6:50000''
   \<and> get_tcp_client two_clients ''10.0.0.5:50000'' = Some 1
   \<and> get_tcp_client two_clients ''10.0.0.6:50000'' = Some 2
   \<and> send_to_robot two_robots two_clients (\<lambda>w. False) (Some ''10.0.0.5'') (Some ''robot2'')
        (JObj [(''type'', JStr ''ping'')])
      = Sent_to_robot 1 (Json_line [(''type'', JStr ''ping'')])
   \<and> send_to_robot two_robots two_clients (\<lambda>w. False) (Some ''10.0.0.5'') (Some ''robot2'')
        (JObj [(''type'', JStr ''ping'')])
      \<noteq> Sent_to_robot 2 (Json_line [(''type'', JStr ''ping'')])"
  by (simp add: two_robots_eq two_clients_eq robot_of_ip_def robot_of_alias_def
      get_tcp_client_def send_to_robot_def resolve_send_target_def resolve_by_ip_def
      wire_of_def dict_get_def Let_def)

text \<open>
  Claim C1 as amended: when \<^verbatim>\<open>robot_ip\<close> designates a connected robot (through the
  primary alias of the IP), the command is relayed to that robot's writer, whatever
  \<^verbatim>\<open>robot_alias\<close> says; the payload is a non-empty dict that serializes, and the
  write does not raise.
\<close>

theorem send_to_robot_relays_to_ip_robot:
  assumes "robot_of_ip mgr ip = Some k" and "ip \<noteq> []" and "k \<noteq> []"
    and "get_tcp_client tcp_clients k = Some w"
    and "truthy (JObj payload)" and "wire_of payload = Inr cmd" and "\<not> write_raises w"
  shows "send_to_robot mgr tcp_clients write_raises (Some ip) target_alias (JObj payload)
           = Sent_to_robot w cmd"
proof -
  obtain a where a: "map_of (ip_to_alias mgr) ip = Some a" "a \<noteq> []"
      "map_of (alias_to_ip_port mgr) a = Some k"
    using assms(1) by (auto simp: robot_of_ip_def split: option.splits if_splits)
  then have "resolve_by_ip mgr ip target_alias = (Some k, target_alias)"
    using assms(3) by (simp add: resolve_by_ip_def Let_def)
  then have "resolve_send_target mgr (Some ip) target_alias = Some k"
    using assms(2,3) by (simp add: resolve_send_target_def Let_def)
  then show ?thesis
    using assms by (simp add: send_to_robot_def)
qed

theorem send_to_robot_relays_to_ip_robot_witness:
  "send_to_robot two_robots two_clients (\<lambda>w. False) (Some ''10.0.0.5'') (Some ''robot2'')
     (JObj [(''type'', JStr ''ping'')])
   = Sent_to_robot 1 (Json_line [(''type'', JStr ''ping'')])"
  by (rule send_to_robot_relays_to_ip_robot [where k = "''10.0.0.5:50000''"])
     (simp_all add: two_robots_eq two_clients_eq robot_of_ip_def get_tcp_client_def wire_of_def
        dict_get_def)

section \<open>Properties of the trajectory request\<close>

text \<open>
  Whatever the command carries and whatever the registry and the pose state hold, the
  reply is the server error for the missing attribute, never \<^verbatim>\<open>trajectory_data\<close>.
\<close>

lemma request_trajectory_always_fails:
  "request_trajectory max_points get_trajectory mgr target_ip target_alias payload
     = Server_error (AttributeError ''max_points'')"
  by (simp add: request_trajectory_def getattr_TrajectoryCalculator_def
      TrajectoryCalculator_attributes_def)

text \<open>
  Claim C2 (a \<^verbatim>\<open>request_trajectory\<close> for a connected robot with pose data is answered
  with \<^verbatim>\<open>trajectory_data\<close>), at the command
  \<^verbatim>\<open>{"command":"request_trajectory","robot_alias":"robot1"}\<close> with robot1 connected:
  the reply is the server error.
\<close>

theorem request_trajectory_robot1_fails:
  "request_trajectory max_points get_trajectory two_robots None (Some ''robot1'')
     [(''command'', JStr ''request_trajectory''), (''robot_alias'', JStr ''robot1'')]
     = Server_error (AttributeError ''max_points'')"
  by (simp add: request_trajectory_def getattr_TrajectoryCalculator_def
      TrajectoryCalculator_attributes_def)

section \<open>Properties of the subscription router\<close>

lemma map_of_dict_del: "map_of (dict_del d k) = (map_of d)(k := None)"
  by (induction d) (auto simp: dict_del_def)

lemma subs_of_add:
  "subs_of (add_subscription subs c a t) c' =
     (if c' = c then (subs_of subs c)(a \<mapsto> insert t (types_of subs c a)) else subs_of subs c')"
  by (auto simp: add_subscription_def subs_of_def types_of_def Let_def map_of_dict_set has_key_def
      split: option.split)

lemma subs_of_remove:
  "subs_of (fst (remove_subscription subs c a t)) c' =
     (if c' = c \<and> subs_of subs c a \<noteq> None
      then (if types_of subs c a - {t} = {} then (subs_of subs c)(a := None)
            else (subs_of subs c)(a \<mapsto> types_of subs c a - {t}))
      else subs_of subs c')"
  by (auto simp: remove_subscription_def subs_of_def types_of_def Let_def map_of_dict_set
      map_of_dict_del split: option.split)

lemma no_empty_sets_add:
  assumes "\<And>c a. subs_of subs c a \<noteq> Some {}"
  shows "subs_of (add_subscription subs c a t) c' a' \<noteq> Some {}"
  using assms by (simp add: subs_of_add)

lemma no_empty_sets_remove:
  assumes "\<And>c a. subs_of subs c a \<noteq> Some {}"
  shows "subs_of (fst (remove_subscription subs c a t)) c' a' \<noteq> Some {}"
  using assms by (simp add: subs_of_remove)

text \<open>
  Claim C7 (subscribe then unsubscribe leaves the client's map as it was, for every
  prior state) fails when the pair is already subscribed: the data types form a set,
  the subscribe changes nothing and the unsubscribe removes the earlier subscription.
\<close>

theorem subscribe_unsubscribe_counterexample:
  "fst (unsubscribe
         (fst (subscribe two_robots [((''192.168.1.2'', 40000), [''robot1'' \<mapsto> {''encoder_data''}])]
                (''192.168.1.2'', 40000) (Some ''encoder_data'') (Some ''robot1'')))
         (''192.168.1.2'', 40000) (Some ''encoder_data'') (Some ''robot1''))
     = []
   \<and> subs_of (fst (unsubscribe
         (fst (subscribe two_robots [((''192.168.1.2'', 40000), [''robot1'' \<mapsto> {''encoder_data''}])]
                (''192.168.1.2'', 40000) (Some ''encoder_data'') (Some ''robot1'')))
         (''192.168.1.2'', 40000) (Some ''encoder_data'') (Some ''robot1'')))
       (''192.168.1.2'', 40000) ''robot1'' = None
   \<and> subs_of [((''192.168.1.2'', 40000), [''robot1'' \<mapsto> {''encoder_data''}])]
       (''192.168.1.2'', 40000) ''robot1'' = Some {''encoder_data''}"
  by (simp add: subscribe_def unsubscribe_def add_subscription_def remove_subscription_def
      two_robots_eq has_key_def subs_of_def dict_del_def Let_def)

text \<open>
  Claim C7 as amended: for a registered alias and a data type the client does not yet
  hold for it, \<^verbatim>\<open>subscribe\<close> followed by \<^verbatim>\<open>unsubscribe\<close> leaves the subscription map
  of every client as it was. The map holds no empty set (the handlers never leave one:
  \<open>no_empty_sets_add\<close>, \<open>no_empty_sets_remove\<close>), and a client without an entry is a
  client with an empty map.
\<close>

theorem subscribe_unsubscribe_restores:
  assumes "has_key (alias_to_ip_port mgr) a" and "a \<noteq> []" and "t \<noteq> []"
    and "t \<notin> types_of subs c a" and "subs_of subs c a \<noteq> Some {}"
  shows "subs_of (fst (unsubscribe (fst (subscribe mgr subs c (Some t) (Some a))) c (Some t) (Some a))) c'
           = subs_of subs c'"
proof -
  have 1: "fst (subscribe mgr subs c (Some t) (Some a)) = add_subscription subs c a t"
    using assms by (simp add: subscribe_def)
  have 2: "fst (unsubscribe s c (Some t) (Some a)) = fst (remove_subscription s c a t)" for s
    using assms by (simp add: unsubscribe_def split: prod.split bool.split)
  have 3: "types_of (add_subscription subs c a t) c a = insert t (types_of subs c a)"
    by (simp add: types_of_def subs_of_add)
  have 4: "insert t (types_of subs c a) - {t} = types_of subs c a"
    using assms(4) by auto
  show ?thesis
  proof (cases "c' = c")
    case False
    then show ?thesis by (simp add: 1 2 subs_of_remove subs_of_add)
  next
    case True
    show ?thesis
    proof (cases "subs_of subs c a")
      case None
      then have "types_of subs c a = {}" by (simp add: types_of_def)
      moreover have "(subs_of subs c)(a := None) = subs_of subs c"
        using None by (simp add: fun_upd_idem)
      ultimately show ?thesis using True None
        by (simp add: 1 2 subs_of_remove subs_of_add 3)
    next
      case (Some s)
      then have "types_of subs c a = s" "s \<noteq> {}"
        using assms(5) by (simp_all add: types_of_def)
      then show ?thesis using True Some 4
        by (simp add: 1 2 subs_of_remove subs_of_add 3 fun_upd_idem)
    qed
  qed
qed

theorem subscribe_unsubscribe_restores_witness:
  "subs_of (fst (unsubscribe
         (fst (subscribe two_robots [((''192.168.1.2'', 40000), [''robot1'' \<mapsto> {''imu_data''}])]
                (''192.168.1.2'', 40000) (Some ''encoder_data'') (Some ''robot1'')))
         (''192.168.1.2'', 40000) (Some ''encoder_data'') (Some ''robot1'')))
       (''192.168.1.2'', 40000)
   = subs_of [((''192.168.1.2'', 40000), [''robot1'' \<mapsto> {''imu_data''}])] (''192.168.1.2'', 40000)"
  by (rule subscribe_unsubscribe_restores)
     (simp_all add: two_robots_eq has_key_def types_of_def subs_of_def)

lemma active_map_address_aux:
  assumes "\<And>a w. map_of d a = Some w \<Longrightarrow> remote_address w = a"
    and "map_of (foldl (\<lambda>d ws. dict_set d (remote_address ws) ws) d ui) a = Some w"
  shows "remote_address w = a"
  using assms
proof (induction ui arbitrary: d)
  case Nil
  then show ?case by simp
next
  case (Cons u ui)
  have step: "remote_address w' = a'"
    if "map_of (dict_set d (remote_address u) u) a' = Some w'" for a' w'
  proof (cases "a' = remote_address u")
    case True
    then show ?thesis using that by (simp add: map_of_dict_set)
  next
    case False
    then have "map_of d a' = Some w'" using that by (simp add: map_of_dict_set)
    then show ?thesis by (rule Cons.prems(1))
  qed
  have "map_of (foldl (\<lambda>d ws. dict_set d (remote_address ws) ws)
          (dict_set d (remote_address u) u) ui) a = Some w"
    using Cons.prems(2) by simp
  with step show ?case by (rule Cons.IH)
qed

lemma active_map_address:
  assumes "map_of (active_websockets_map ui) a = Some w"
  shows "remote_address w = a"
proof (rule active_map_address_aux [of "[]" ui a w])
  show "map_of (foldl (\<lambda>d ws. dict_set d (remote_address ws) ws) [] ui) a = Some w"
    using assms by (simp only: active_websockets_map_def)
qed simp

lemma sends_to_client_sends:
  "sends_to ws (client_sends outcome r t w m) = (if w = ws then client_sends outcome r t w m else [])"
  by (simp add: sends_to_def client_sends_def Let_def)

lemma sends_to_append: "sends_to ws (xs @ ys) = sends_to ws xs @ sends_to ws ys"
  by (simp add: sends_to_def)

lemma broadcast_events_Nil: "broadcast_events outcome active r t [] = []"
  by (simp add: broadcast_events_def)

lemma broadcast_events_Cons:
  "broadcast_events outcome active r t ((a, m) # subs) =
     (case map_of active a of None \<Rightarrow> [] | Some w \<Rightarrow> client_sends outcome r t w m)
     @ broadcast_events outcome active r t subs"
  by (simp add: broadcast_events_def)

lemma sends_to_other_entry:
  assumes "a \<noteq> remote_address ws"
  shows "sends_to ws (case map_of (active_websockets_map ui) a of None \<Rightarrow> []
          | Some w \<Rightarrow> client_sends outcome r t w m) = []"
proof (cases "map_of (active_websockets_map ui) a")
  case None
  then show ?thesis by (simp add: sends_to_def)
next
  case (Some w)
  then have "remote_address w = a" by (rule active_map_address)
  then have "w \<noteq> ws" using assms by auto
  then show ?thesis using Some by (simp add: sends_to_client_sends)
qed

lemma sends_to_others:
  assumes "remote_address ws \<notin> fst ` set subs"
  shows "sends_to ws (broadcast_events outcome (active_websockets_map ui) r t subs) = []"
  using assms
proof (induction subs)
  case Nil
  then show ?case by (simp add: sends_to_def broadcast_events_Nil)
next
  case (Cons e subs)
  obtain a m where e: "e = (a, m)" by (cases e)
  have "a \<noteq> remote_address ws" using Cons.prems e by auto
  then have "sends_to ws (case map_of (active_websockets_map ui) a of None \<Rightarrow> []
          | Some w \<Rightarrow> client_sends outcome r t w m) = []"
    by (rule sends_to_other_entry)
  moreover have "sends_to ws (broadcast_events outcome (active_websockets_map ui) r t subs) = []"
    using Cons by simp
  ultimately show ?case
    unfolding e broadcast_events_Cons sends_to_append by simp
qed

lemma sends_to_events:
  assumes "distinct (map fst subs)" and "map_of subs c = Some m"
    and "map_of (active_websockets_map ui) c = Some ws"
  shows "sends_to ws (broadcast_events outcome (active_websockets_map ui) r t subs)
           = client_sends outcome r t ws m"
  using assms(1,2)
proof (induction subs)
  case Nil
  then show ?case by simp
next
  case (Cons e subs)
  obtain a m' where e: "e = (a, m')" by (cases e)
  have addr: "remote_address ws = c" using assms(3) by (rule active_map_address)
  show ?case
  proof (cases "a = c")
    case True
    then have m': "m' = m" using Cons.prems(2) e by simp
    have "remote_address ws \<notin> fst ` set subs" using Cons.prems(1) e True addr by simp
    then have "sends_to ws (broadcast_events outcome (active_websockets_map ui) r t subs) = []"
      by (rule sends_to_others)
    moreover have "sends_to ws (case map_of (active_websockets_map ui) a of None \<Rightarrow> []
          | Some w \<Rightarrow> client_sends outcome r t w m') = client_sends outcome r t ws m"
      using True m' assms(3) by (simp add: sends_to_client_sends)
    ultimately show ?thesis
      unfolding e broadcast_events_Cons sends_to_append by simp
  next
    case False
    then have "a \<noteq> remote_address ws" using addr by simp
    then have "sends_to ws (case map_of (active_websockets_map ui) a of None \<Rightarrow> []
          | Some w \<Rightarrow> client_sends outcome r t w m') = []"
      by (rule sends_to_other_entry)
    moreover have "map_of subs c = Some m" using Cons.prems(2) e False by simp
    moreover have "distinct (map fst subs)" using Cons.prems(1) by simp
    ultimately show ?thesis
      unfolding e broadcast_events_Cons sends_to_append using Cons.IH by simp
  qed
qed

lemma has_key_of_get: "dict_get payload k = JStr t \<Longrightarrow> has_key payload k"
  by (cases "map_of payload k") (simp_all add: has_key_def dict_get_def)

lemma broadcast_fst:
  assumes "dict_get payload ''type'' = JStr t" and "dict_get payload ''robot_alias'' = JStr r"
  shows "fst (broadcast_to_subscribers outcome ui subs r payload)
           = broadcast_events outcome (active_websockets_map ui) r t subs"
  unfolding broadcast_to_subscribers_def
  by (simp only: has_key_of_get [OF assms(1)] assms not_True_eq_False not_False_eq_True
      simp_thms if_False json.case Let_def fst_conv)

lemma delivered_to_sends_to:
  "delivered_to ws events = length (filter (\<lambda>(w, b, r). r = Delivered) (sends_to ws events))"
  unfolding delivered_to_def sends_to_def by (induction events) auto

lemma client_sends_cases:
  "client_sends outcome r t ws m =
    (if subscribed m r t then
       (if outcome ws Specific = Delivered then [(ws, Specific, Delivered)]
        else if subscribed m GLOBAL_SUBSCRIPTION_KEY t
             then [(ws, Specific, outcome ws Specific), (ws, Global, outcome ws Global)]
             else [(ws, Specific, outcome ws Specific)])
     else if subscribed m GLOBAL_SUBSCRIPTION_KEY t then [(ws, Global, outcome ws Global)]
     else [])"
  unfolding client_sends_def Let_def
  by (cases "subscribed m r t"; cases "outcome ws Specific = Delivered";
      cases "subscribed m GLOBAL_SUBSCRIPTION_KEY t") simp_all

lemma client_sends_no_entry: "client_sends outcome r t ws Map.empty = []"
  by (simp add: client_sends_def subscribed_def)

text \<open>
  The sends of a broadcast to a client with an active websocket are those of its
  subscription map; a client with no entry has the empty map.
\<close>

lemma sends_to_events_client:
  assumes "distinct (map fst subs)"
    and "map_of (active_websockets_map ui) c = Some ws"
  shows "sends_to ws (broadcast_events outcome (active_websockets_map ui) r t subs)
           = client_sends outcome r t ws (subs_of subs c)"
proof (cases "map_of subs c")
  case None
  have "remote_address ws = c" using assms(2) by (rule active_map_address)
  moreover have "c \<notin> fst ` set subs" using None by (simp add: map_of_eq_None_iff)
  ultimately have "remote_address ws \<notin> fst ` set subs" by simp
  then have "sends_to ws (broadcast_events outcome (active_websockets_map ui) r t subs) = []"
    by (rule sends_to_others)
  then show ?thesis using None by (simp add: subs_of_def client_sends_no_entry)
next
  case (Some m)
  have "sends_to ws (broadcast_events outcome (active_websockets_map ui) r t subs)
          = client_sends outcome r t ws m"
    using assms(1) Some assms(2) by (rule sends_to_events)
  then show ?thesis using Some by (simp add: subs_of_def)
qed

lemma delivered_client_sends:
  "length (filter (\<lambda>(w, b, r). r = Delivered) (client_sends outcome r t ws m)) \<le> 1"
  unfolding client_sends_cases
  by (cases "subscribed m r t"; cases "outcome ws Specific = Delivered";
      cases "subscribed m GLOBAL_SUBSCRIPTION_KEY t") simp_all

text \<open>
  Claim C6 (exactly one send to a matching client, at most one even when both the
  specific and the global pattern match) fails when the specific send raises: the
  flag \<^verbatim>\<open>sent_to_this_client_for_payload\<close> is set only after a send that went through,
  so with both patterns matching the global branch sends the frame a second time.
  Here the client holds \<^verbatim>\<open>encoder_data\<close> for robot1 and globally, the first send
  raises and the second goes through: two sends to the one client.
\<close>

theorem broadcast_second_send_counterexample:
  "sends_to \<lparr>ws_id = 1, remote_address = (''192.168.1.2'', 40000)\<rparr>
     (fst (broadcast_to_subscribers (\<lambda>ws b. if b = Specific then Other_error else Delivered)
        [\<lparr>ws_id = 1, remote_address = (''192.168.1.2'', 40000)\<rparr>]
        [((''192.168.1.2'', 40000),
          [''robot1'' \<mapsto> {''encoder_data''}, ''__GLOBAL__'' \<mapsto> {''encoder_data''}])]
        ''robot1''
        [(''type'', JStr ''encoder_data''), (''robot_alias'', JStr ''robot1'')]))
   = [(\<lparr>ws_id = 1, remote_address = (''192.168.1.2'', 40000)\<rparr>, Specific, Other_error),
      (\<lparr>ws_id = 1, remote_address = (''192.168.1.2'', 40000)\<rparr>, Global, Delivered)]"
  by (simp add: broadcast_to_subscribers_def broadcast_events_def active_websockets_map_def
      client_sends_def subscribed_def sends_to_def has_key_def dict_get_def
      GLOBAL_SUBSCRIPTION_KEY_def Let_def)

text \<open>
  Claim C6 as amended: for a frame of type \<open>t\<close> from robot \<open>r\<close> and a client \<open>c\<close> with an
  active websocket, whose subscription map is \<open>m\<close> (empty when the client has no
  entry). If \<open>t\<close> is neither in the robot's entry nor in the global one, nothing is
  sent to the client. If it is in the robot's entry, the frame is sent once, and a
  second time through the global subscription only when that first send raised and
  \<open>t\<close> is in the global entry too. If it is in the global entry only, the frame is
  sent once. So a client whose send goes through gets exactly one send also when both
  patterns match, and of the sends to a client at most one goes through.
\<close>

theorem broadcast_sends_per_client:
  assumes "dict_get payload ''type'' = JStr t" and "dict_get payload ''robot_alias'' = JStr r"
    and "distinct (map fst subs)"
    and "map_of (active_websockets_map ui) c = Some ws"
    and "m = subs_of subs c"
    and "events = fst (broadcast_to_subscribers outcome ui subs r payload)"
  shows "sends_to ws events =
     (if subscribed m r t then
        (if outcome ws Specific = Delivered then [(ws, Specific, Delivered)]
         else if subscribed m GLOBAL_SUBSCRIPTION_KEY t
              then [(ws, Specific, outcome ws Specific), (ws, Global, outcome ws Global)]
              else [(ws, Specific, outcome ws Specific)])
      else if subscribed m GLOBAL_SUBSCRIPTION_KEY t then [(ws, Global, outcome ws Global)]
      else [])
     \<and> delivered_to ws events \<le> 1"
proof -
  have s: "sends_to ws events = client_sends outcome r t ws m"
    unfolding assms(5,6) broadcast_fst [OF assms(1,2)]
    using assms(3,4) by (rule sends_to_events_client)
  have d: "delivered_to ws events \<le> 1"
    unfolding delivered_to_sends_to s by (rule delivered_client_sends)
  show ?thesis
    using s d by (simp only: client_sends_cases simp_thms)
qed

theorem broadcast_sends_per_client_witness:
  "sends_to \<lparr>ws_id = 1, remote_address = (''192.168.1.2'', 40000)\<rparr>
     (fst (broadcast_to_subscribers (\<lambda>ws b. Delivered)
        [\<lparr>ws_id = 1, remote_address = (''192.168.1.2'', 40000)\<rparr>]
        [((''192.168.1.2'', 40000),
          [''robot1'' \<mapsto> {''encoder_data''}, GLOBAL_SUBSCRIPTION_KEY \<mapsto> {''encoder_data''}])]
        ''robot1''
        [(''type'', JStr ''encoder_data''), (''robot_alias'', JStr ''robot1'')]))
   = [(\<lparr>ws_id = 1, remote_address = (''192.168.1.2'', 40000)\<rparr>, Specific, Delivered)]"
  using broadcast_sends_per_client [where outcome = "\<lambda>ws b. Delivered"
      and ui = "[\<lparr>ws_id = 1, remote_address = (''192.168.1.2'', 40000)\<rparr>]"
      and subs = "[((''192.168.1.2'', 40000),
          [''robot1'' \<mapsto> {''encoder_data''}, GLOBAL_SUBSCRIPTION_KEY \<mapsto> {''encoder_data''}])]"
      and r = "''robot1''" and t = "''encoder_data''"
      and payload = "[(''type'', JStr ''encoder_data''), (''robot_alias'', JStr ''robot1'')]"
      and c = "(''192.168.1.2'', 40000)"
      and ws = "\<lparr>ws_id = 1, remote_address = (''192.168.1.2'', 40000)\<rparr>", OF _ _ _ _ refl refl]
  by (simp add: dict_get_def active_websockets_map_def subscribed_def subs_of_def
      GLOBAL_SUBSCRIPTION_KEY_def)

section \<open>Properties of the PID configuration loader\<close>

lemma split_on_nonempty: "split_on sep s \<noteq> []"
  by (induction s) (auto split: list.split)

lemma length_split_on: "length (split_on sep s) = Suc (length (filter (\<lambda>c. c = sep) s))"
  by (induction s) (auto split: list.split simp: split_on_nonempty)

lemma filter_dropWhile_other:
  assumes "\<And>x. P x \<Longrightarrow> \<not> Q x"
  shows "filter Q (dropWhile P xs) = filter Q xs"
  using assms by (induction xs) auto

lemma commas_py_strip:
  "filter (\<lambda>c. c = CHR '','') (py_strip s) = filter (\<lambda>c. c = CHR '','') s"
proof -
  have sp: "\<And>x. py_isspace x \<Longrightarrow> \<not> x = CHR '',''"
    by (auto simp: py_isspace_def)
  have "filter (\<lambda>c. c = CHR '','') (py_strip s)
      = rev (filter (\<lambda>c. c = CHR '','') (dropWhile py_isspace (rev (dropWhile py_isspace s))))"
    by (simp add: py_strip_def rev_filter)
  also have "\<dots> = rev (filter (\<lambda>c. c = CHR '','') (rev (dropWhile py_isspace s)))"
    by (simp add: filter_dropWhile_other [of py_isspace, OF sp])
  also have "\<dots> = filter (\<lambda>c. c = CHR '','') (dropWhile py_isspace s)"
    by (simp add: rev_filter)
  also have "\<dots> = filter (\<lambda>c. c = CHR '','') s"
    by (simp add: filter_dropWhile_other [of py_isspace, OF sp])
  finally show ?thesis .
qed

text \<open>
  A line is an entry only if it holds exactly three commas: a line of the form
  \<^verbatim>\<open>Motor<n>:<kp>,<ki>,<kd>\<close>, with two, is skipped as malformed whatever \<^verbatim>\<open>int\<close>
  and \<^verbatim>\<open>float\<close> accept.
\<close>

lemma load_pid_line_needs_three_commas:
  assumes "length (filter (\<lambda>c. c = CHR '','') raw_line) \<noteq> 3"
  shows "load_pid_line py_int py_float raw_line = Skipped
       \<or> load_pid_line py_int py_float raw_line = Malformed_line"
proof -
  have "length (split_on CHR '','' (py_strip raw_line)) \<noteq> 4"
    using assms by (simp add: length_split_on commas_py_strip)
  then show ?thesis
    by (auto simp: load_pid_line_def Let_def split: list.split)
qed

text \<open>The comma form is loaded, here on one line, when \<^verbatim>\<open>int\<close> and \<^verbatim>\<open>float\<close> accept the fields.\<close>

lemma comma_form_line_loaded:
  assumes "py_int ''2'' = Some 2" and "py_float ''0.5'' = Some a"
    and "py_float ''0.1'' = Some b" and "py_float ''0.05'' = Some c"
  shows "load_pid_config_from_file py_int py_float (Some [''2,0.5,0.1,0.05'' @ [CHR 0x0A]])
           = Some [(2, \<lparr>kp = a, ki = b, kd = c\<rparr>)]"
  using assms
  by (simp add: load_pid_config_from_file_def load_pid_lines_def load_pid_line_def
      py_strip_def py_isspace_def)

text \<open>
  The file \<^verbatim>\<open>save_pid_config_to_file\<close> writes when it is given no data (three lines
  \<^verbatim>\<open>Motor<i>:0.0,0.0,0.0\<close>) is not loaded back: every line is skipped.
\<close>

lemma saved_default_pid_file_not_loaded:
  "load_pid_config_from_file py_int py_float (Some (save_pid_config_to_file fmt_float None)) = None"
  by (simp add: load_pid_config_from_file_def save_pid_config_to_file_def load_pid_lines_def
      load_pid_line_def py_strip_def py_isspace_def string_of_nat_small
      string_of_nat.simps [of 3] digit_char_def)

text \<open>
  Claim C3 (the loader accepts both record forms), at the file of the one line
  \<^verbatim>\<open>Motor1:0.5,0.1,0.05\<close>: the line splits at its commas into three parts, not four,
  is skipped as malformed, and the load yields no cache, whatever \<^verbatim>\<open>int\<close> and \<^verbatim>\<open>float\<close>
  accept.
\<close>

theorem colon_form_line_not_loaded:
  "load_pid_line py_int py_float (''Motor1:0.5,0.1,0.05'' @ [CHR 0x0A]) = Malformed_line
   \<and> load_pid_config_from_file py_int py_float (Some [''Motor1:0.5,0.1,0.05'' @ [CHR 0x0A]]) = None"
  by (simp add: load_pid_config_from_file_def load_pid_lines_def load_pid_line_def
      py_strip_def py_isspace_def)

section \<open>Properties of firmware staging and the OTA server\<close>

lemma finish_in_progress:
  assumes "uploads ip = Some info"
  shows "finish fs uploads ip =
     (fs\<lparr>open_handles := open_handles fs - {up_file info}\<rparr>, uploads(ip := None),
      if py_eq_int (received info) (filesize info) then Some (up_path info) else None)"
  using assms by (simp add: finish_def)

text \<open>
  Claim C8: for an upload in progress for an IP, \<^verbatim>\<open>finish\<close> returns the staged path
  exactly when \<^verbatim>\<open>received == filesize\<close>; on a mismatch the reply is the
  \<^verbatim>\<open>upload_finish\<close> error, the OTA state is the one before and no file is touched;
  either way the upload's file handle is closed and the entry is gone.
\<close>

theorem upload_firmware_end_finalization:
  assumes "uploads ip = Some info"
    and "finish fs uploads ip = (fs', uploads', fw_path)"
    and "upload_firmware_end fs uploads ota ip = (fs1, uploads1, ota1, reply)"
  shows "(fw_path = Some (up_path info)) = py_eq_int (received info) (filesize info)
     \<and> (\<not> py_eq_int (received info) (filesize info) \<longrightarrow>
          fw_path = None \<and> reply = Error_upload_finish \<and> ota1 = ota \<and> files fs1 = files fs)
     \<and> up_file info \<notin> open_handles fs' \<and> uploads' ip = None
     \<and> up_file info \<notin> open_handles fs1 \<and> uploads1 ip = None"
proof -
  have f: "fs' = fs\<lparr>open_handles := open_handles fs - {up_file info}\<rparr>"
      "uploads' = uploads(ip := None)"
      "fw_path = (if py_eq_int (received info) (filesize info) then Some (up_path info) else None)"
    using assms(1,2) by (auto simp: finish_def)
  have e: "fs1 = fs'" "uploads1 = uploads'"
    using assms(2,3) by (auto simp: upload_firmware_end_def Let_def split: option.splits if_splits)
  have m: "reply = Error_upload_finish \<and> ota1 = ota"
    if "\<not> py_eq_int (received info) (filesize info)"
    using that assms(2,3) f(3) by (simp add: upload_firmware_end_def)
  show ?thesis
    using f e m by simp
qed

theorem upload_firmware_end_finalization_witness:
  "upload_firmware_end
      \<lparr>files = [''temp_firmware/f.bin'' \<mapsto> ''firm''], open_handles = {3}\<rparr>
      [''10.0.0.5'' \<mapsto> \<lparr>up_file = 3, up_path = ''temp_firmware/f.bin'',
                           filesize = JInt 4096, received = 4\<rparr>]
      \<lparr>firmware_to_send_path = None, ota_server_robot_ip_target = None\<rparr> ''10.0.0.5''
    = (\<lparr>files = [''temp_firmware/f.bin'' \<mapsto> ''firm''], open_handles = {}\<rparr>,
       Map.empty,
       \<lparr>firmware_to_send_path = None, ota_server_robot_ip_target = None\<rparr>,
       Error_upload_finish)"
proof -
  let ?fs = "\<lparr>files = [''temp_firmware/f.bin'' \<mapsto> ''firm''], open_handles = {3}\<rparr>"
  let ?info = "\<lparr>up_file = 3, up_path = ''temp_firmware/f.bin'',
                 filesize = JInt 4096, received = 4\<rparr>"
  let ?ota = "\<lparr>firmware_to_send_path = None, ota_server_robot_ip_target = None\<rparr>"
  have u: "[''10.0.0.5'' \<mapsto> ?info] ''10.0.0.5'' = Some ?info"
    by simp
  obtain fs' uploads' fw_path where fin:
    "finish ?fs [''10.0.0.5'' \<mapsto> ?info] ''10.0.0.5'' = (fs', uploads', fw_path)"
    by (metis prod_cases3)
  obtain fs1 uploads1 ota1 reply where e:
    "upload_firmware_end ?fs [''10.0.0.5'' \<mapsto> ?info] ?ota ''10.0.0.5''
       = (fs1, uploads1, ota1, reply)"
    by (metis prod_cases4)
  have r: "reply = Error_upload_finish \<and> ota1 = ?ota \<and> uploads1 ''10.0.0.5'' = None"
    using upload_firmware_end_finalization [OF u fin e] by simp
  have "upload_firmware_end ?fs [''10.0.0.5'' \<mapsto> ?info] ?ota ''10.0.0.5''
       = (?fs\<lparr>open_handles := {}\<rparr>, Map.empty, ?ota, Error_upload_finish)"
    by (simp add: upload_firmware_end_def finish_def)
  then show ?thesis using r by simp
qed



























text \<open>
  A handler that is resumed often enough, with no drain raising, writes the whole of
  what its file still holds; further resumes of a closed connection change nothing.
\<close>

lemma ota_resume_absent:
  assumes "map_of (w_tasks w) conn = None"
  shows "run_ota w (replicate k (Resume conn False remove_raises)) = w"
  using assms unfolding run_ota_def
  by (induction k) (simp_all add: ota_resume_def)

lemma ota_resumes_stream_rest:
  assumes "map_of (w_tasks w) conn = Some task"
    and "length (task_rest task) \<le> 1024 * k"
  shows "w_done (run_ota w (replicate (Suc k) (Resume conn False remove_raises)))
           = w_done w @ [\<lparr>done_id = conn, done_peer = task_peer task,
                           done_sent = task_sent task @ task_rest task, done_transfer = True\<rparr>]"
  using assms
proof (induction k arbitrary: w task)
  case 0
  then have r: "task_rest task = []" by simp
  then show ?case
    using "0.prems"(1)
    by (simp add: run_ota_def ota_resume_def ota_continue_def close_connection_def Let_def)
next
  case (Suc k)
  show ?case
  proof (cases "task_rest task = []")
    case True
    let ?w1 = "ota_resume w conn False remove_raises"
    have w1: "?w1 = close_connection
          (w\<lparr>w_tasks := dict_del (w_tasks w) conn, w_ota := clear_arm (w_ota w),
             w_fs := (if remove_raises then w_fs w
                      else (w_fs w)\<lparr>files := (files (w_fs w))(task_path task := None)\<rparr>)\<rparr>)
          conn (task_peer task) (task_sent task) True"
      using True Suc.prems(1) by (simp add: ota_resume_def ota_continue_def Let_def)
    then have "map_of (w_tasks ?w1) conn = None"
      by (simp add: close_connection_def map_of_dict_del)
    then have "run_ota ?w1 (replicate (Suc k) (Resume conn False remove_raises)) = ?w1"
      by (rule ota_resume_absent)
    moreover have "run_ota w (replicate (Suc (Suc k)) (Resume conn False remove_raises))
        = run_ota ?w1 (replicate (Suc k) (Resume conn False remove_raises))"
      by (simp add: run_ota_def)
    ultimately show ?thesis using w1 True by (simp add: close_connection_def)
  next
    case False
    let ?t = "task\<lparr>task_sent := task_sent task @ take 1024 (task_rest task),
                    task_rest := drop 1024 (task_rest task)\<rparr>"
    let ?w1 = "ota_resume w conn False remove_raises"
    have w1: "?w1 = w\<lparr>w_tasks := dict_set (dict_del (w_tasks w) conn) conn ?t\<rparr>"
      using False Suc.prems(1) by (simp add: ota_resume_def ota_continue_def Let_def)
    then have a: "map_of (w_tasks ?w1) conn = Some ?t"
      by (simp add: map_of_dict_set)
    have b: "length (task_rest ?t) \<le> 1024 * k"
      using Suc.prems(2) by simp
    have "w_done (run_ota ?w1 (replicate (Suc k) (Resume conn False remove_raises)))
        = w_done ?w1 @ [\<lparr>done_id = conn, done_peer = task_peer ?t,
                           done_sent = task_sent ?t @ task_rest ?t, done_transfer = True\<rparr>]"
      using a b by (rule Suc.IH)
    moreover have "run_ota w (replicate (Suc (Suc k)) (Resume conn False remove_raises))
        = run_ota ?w1 (replicate (Suc k) (Resume conn False remove_raises))"
      by (simp add: run_ota_def)
    ultimately show ?thesis using w1 by simp
  qed
qed

text \<open>
  A lone connection from the armed IP, resumed until its loop ends with no drain
  raising, is sent the whole file.
\<close>

lemma lone_accept_streams_file:
  assumes "files fs p = Some contents" and "p \<noteq> []"
    and "length contents \<le> 1024 * Suc k"
  shows "w_done (run_ota (armed_world fs p ip)
            (Accept ip remove_raises # replicate (Suc k) (Resume 0 False remove_raises)))
           = [\<lparr>done_id = 0, done_peer = ip, done_sent = contents, done_transfer = True\<rparr>]"
proof (cases "contents = []")
  case True
  let ?w1 = "ota_accept (armed_world fs p ip) ip remove_raises"
  have w1: "w_tasks ?w1 = []"
      "w_done ?w1 = [\<lparr>done_id = 0, done_peer = ip, done_sent = [], done_transfer = True\<rparr>]"
    using assms(1,2) True
    by (simp_all add: ota_accept_def armed_world_def ota_continue_def close_connection_def Let_def)
  then have "map_of (w_tasks ?w1) 0 = None" by simp
  then have "run_ota ?w1 (replicate (Suc k) (Resume 0 False remove_raises)) = ?w1"
    by (rule ota_resume_absent)
  moreover have "run_ota (armed_world fs p ip)
        (Accept ip remove_raises # replicate (Suc k) (Resume 0 False remove_raises))
      = run_ota ?w1 (replicate (Suc k) (Resume 0 False remove_raises))"
    by (simp add: run_ota_def)
  ultimately show ?thesis using w1(2) True by simp
next
  case False
  let ?w1 = "ota_accept (armed_world fs p ip) ip remove_raises"
  let ?t = "\<lparr>task_peer = ip, task_path = p, task_rest = drop 1024 contents,
            task_sent = take 1024 contents\<rparr>"
  have w1: "w_tasks ?w1 = [(0, ?t)]" "w_done ?w1 = []"
    using assms(1,2) False
    by (simp_all add: ota_accept_def armed_world_def ota_continue_def Let_def)
  then have a: "map_of (w_tasks ?w1) 0 = Some ?t" by simp
  have b: "length (task_rest ?t) \<le> 1024 * k" using assms(3) by simp
  have "w_done (run_ota ?w1 (replicate (Suc k) (Resume 0 False remove_raises)))
      = w_done ?w1 @ [\<lparr>done_id = 0, done_peer = task_peer ?t,
                         done_sent = task_sent ?t @ task_rest ?t, done_transfer = True\<rparr>]"
    using a b by (rule ota_resumes_stream_rest)
  moreover have "run_ota (armed_world fs p ip)
        (Accept ip remove_raises # replicate (Suc k) (Resume 0 False remove_raises))
      = run_ota ?w1 (replicate (Suc k) (Resume 0 False remove_raises))"
    by (simp add: run_ota_def)
  ultimately show ?thesis using w1(2) by simp
qed

text \<open>
  The firmware round trip: an upload started with the size of the one chunk it then
  receives is finalized with the \<^verbatim>\<open>firmware_prepared_for_ota\<close> reply and arms the OTA
  server with the staged file, which holds the decoded chunk, for the IP.
\<close>

lemma firmware_round_trip:
  assumes "b64decode chunk = Some raw" and "path \<noteq> []"
    and "start fs Map.empty ip path f (JInt (int (length raw))) = (fs1, uploads1)"
    and "add_chunk b64decode fs1 uploads1 ip chunk = (fs2, uploads2, r)"
    and "upload_firmware_end fs2 uploads2 ota ip = (fs3, uploads3, ota3, reply)"
  shows "reply = Firmware_prepared_for_ota (length raw)
     \<and> ota3 = ota\<lparr>firmware_to_send_path := Some path, ota_server_robot_ip_target := Some ip\<rparr>
     \<and> files fs3 path = Some raw"
proof -
  have 1: "fs1 = fs\<lparr>files := (files fs)(path \<mapsto> []), open_handles := insert f (open_handles fs)\<rparr>"
      "uploads1 = [ip \<mapsto> \<lparr>up_file = f, up_path = path,
                            filesize = JInt (int (length raw)), received = 0\<rparr>]"
    using assms(3) by (auto simp: start_def)
  have 2: "files fs2 path = Some raw"
      "uploads2 ip = Some \<lparr>up_file = f, up_path = path,
                            filesize = JInt (int (length raw)), received = int (length raw)\<rparr>"
    using assms(1,4) unfolding 1 by (auto simp: add_chunk_def)
  have 3: "files fs3 = files fs2" "reply = Firmware_prepared_for_ota (length raw)"
      "ota3 = ota\<lparr>firmware_to_send_path := Some path, ota_server_robot_ip_target := Some ip\<rparr>"
    using assms(2,5) 2
    by (auto simp: upload_firmware_end_def finish_def prepare_firmware_for_send_def Let_def)
  show ?thesis using 2(1) 3 by simp
qed

end
